theory Spec2Isabelle
  imports Complex_Main "HOL-Library.Multiset" "HOL-Library.Sublist"
begin

section \<open>Conventions of the embedding\<close>

text \<open>
  The pipeline of \<^verbatim>\<open>signal-scorer.js\<close>, \<^verbatim>\<open>wedge-detector.js\<close> and
  \<^verbatim>\<open>playbook-generator.js\<close> is embedded function by function.

  \<^item> JavaScript numbers that carry scores are modelled as exact reals: \<open>0.95 + 0.15\<close> is
    \<open>1.10\<close> here, the rounding of IEEE doubles is not part of the model. Counts, months and
    millisecond timestamps are integers.
  \<^item> A database row is a record, a nullable column that the pipeline reads is an
    \<open>option\<close>. Reading a property of \<^verbatim>\<open>null\<close> (\<^verbatim>\<open>post_content.substring\<close>,
    \<^verbatim>\<open>key_themes[0]\<close>, \<^verbatim>\<open>topics_detected[0]\<close>) throws a \<^verbatim>\<open>TypeError\<close>: the functions that
    can do so return \<open>error + 'a\<close>, and the \<^verbatim>\<open>try/catch\<close> around them is a case distinction.
    The three stored scores of a signal are numbers.
  \<^item> Every \<^verbatim>\<open>await\<close> of a query is a fetch outcome of type \<open>error + 'a\<close>, one per call
    site, supplied by the environment; \<^verbatim>\<open>try/catch\<close> is a case distinction on it.
  \<^item> \<^verbatim>\<open>Date.now()\<close> is the parameter \<open>now\<close> (milliseconds).
  \<^item> Strings are ASCII text, one \<open>char\<close> for each UTF-16 code unit of the JavaScript string.
\<close>

datatype error = Error string

fun message :: "error \<Rightarrow> string" where
  "message (Error m) = m"

type_synonym 'a fetch = "error + 'a"

text \<open>The \<^verbatim>\<open>TypeError\<close> of reading property \<open>property\<close> of \<^verbatim>\<open>null\<close>, with the message that
  Node.js gives it.\<close>

definition typeError :: "string \<Rightarrow> error" where
  "typeError property =
     Error (''Cannot read properties of null (reading '' @ [CHR 0x27] @ property @ [CHR 0x27]
            @ '')'')"

section \<open>JavaScript helpers\<close>

text \<open>\<^verbatim>\<open>Array.prototype.slice(start, end)\<close>: a negative index counts from the end, and both
  indices are clamped to the length.\<close>

definition relativeIndex :: "nat \<Rightarrow> int \<Rightarrow> nat" where
  "relativeIndex len k = (if k < 0 then nat (max (int len + k) 0) else min (nat k) len)"

definition slice :: "'a list \<Rightarrow> int \<Rightarrow> int \<Rightarrow> 'a list" where
  "slice xs start end =
     (let from = relativeIndex (length xs) start;
          to = relativeIndex (length xs) end
      in take (to - from) (drop from xs))"

section \<open>Signal scorer\<close>

record raw_data =
  techStack :: "string list option"

record signal =
  signal_type :: string
  signal_category :: string
  description :: string
  relevance_score :: real
  urgency_score :: real
  wedge_potential :: real
  raw_data :: "raw_data option"

text \<open>The scorer's output entry: the spread copy \<^verbatim>\<open>{ ...signal }\<close> with the two added
  fields; \<open>linkedin_boosted\<close> is \<open>False\<close> where the JavaScript object has no such key.\<close>

record scored_signal = signal +
  linkedin_boosted :: bool
  composite_score :: real

text \<open>The two fields set by the constructor from \<^verbatim>\<open>config.intelligence\<close>.\<close>

record SignalScorer =
  linkedinBoost :: real
  minRelevance :: real

text \<open>\<^verbatim>\<open>config.js\<close>: \<^verbatim>\<open>parseFloat(process.env...) || 0.3\<close> and \<^verbatim>\<open>... || 0.5\<close>, with an
  empty environment.\<close>

definition signalScorer :: SignalScorer where
  "signalScorer = \<lparr>linkedinBoost = 0.3, minRelevance = 0.5\<rparr>"

definition isLinkedInSignal :: "string \<Rightarrow> bool" where
  "isLinkedInSignal signalType =
     List.member [''linkedin_activity'', ''linkedin_content'', ''linkedin_profile_change'']
       signalType"

definition calculateCompositeScore :: "real \<Rightarrow> real \<Rightarrow> real \<Rightarrow> real" where
  "calculateCompositeScore relevance urgency wedgePotential =
     relevance * 0.4 + urgency * 0.3 + wedgePotential * 0.3"

text \<open>The body of the \<^verbatim>\<open>signals.map\<close> callback.\<close>

definition boostSignal :: "SignalScorer \<Rightarrow> signal \<Rightarrow> scored_signal" where
  "boostSignal this s =
     (let linkedin = isLinkedInSignal (signal_type s);
          boosted_relevance =
            (if linkedin then min (relevance_score s + linkedinBoost this) 1.0
             else relevance_score s)
      in \<lparr>signal_type = signal_type s,
          signal_category = signal_category s,
          description = description s,
          relevance_score = boosted_relevance,
          urgency_score = urgency_score s,
          wedge_potential = wedge_potential s,
          raw_data = raw_data s,
          linkedin_boosted = linkedin,
          composite_score =
            calculateCompositeScore boosted_relevance (urgency_score s) (wedge_potential s)\<rparr>)"

text \<open>\<^verbatim>\<open>sort((a, b) => b.composite_score - a.composite_score)\<close>: a stable sort,
  descending.\<close>

definition scoreAndPrioritizeSignals ::
  "SignalScorer \<Rightarrow> signal list fetch \<Rightarrow> scored_signal list" where
  "scoreAndPrioritizeSignals this getSignalsByContact =
     (case getSignalsByContact of
        Inl err \<Rightarrow> []
      | Inr signals \<Rightarrow>
          if length signals = 0 then []
          else
            let boostedSignals = map (boostSignal this) signals;
                filteredSignals =
                  filter (\<lambda>s. relevance_score s \<ge> minRelevance this) boostedSignals
            in sort_key (\<lambda>s. - composite_score s) filteredSignals)"

definition getTopSignals ::
  "SignalScorer \<Rightarrow> signal list fetch \<Rightarrow> int \<Rightarrow> scored_signal list" where
  "getTopSignals this getSignalsByContact count' =
     slice (scoreAndPrioritizeSignals this getSignalsByContact) 0 count'"

section \<open>Rendering values in template literals\<close>

fun show_nat :: "nat \<Rightarrow> string" where
  "show_nat n =
     (if n < 10 then [char_of (48 + n)]
      else show_nat (n div 10) @ [char_of (48 + n mod 10)])"

declare show_nat.simps [simp del]

definition show_int :: "int \<Rightarrow> string" where
  "show_int i = (if i < 0 then CHR ''-'' # show_nat (nat (- i)) else show_nat (nat i))"

text \<open>A nullable integer column inside \<^verbatim>\<open>${...}\<close>.\<close>

fun show_nullable_int :: "int option \<Rightarrow> string" where
  "show_nullable_int None = ''null''"
| "show_nullable_int (Some i) = show_int i"

text \<open>\<^verbatim>\<open>xs[i]\<close> is \<^verbatim>\<open>undefined\<close> out of range (here \<open>None\<close>).\<close>

fun element_at :: "'a list \<Rightarrow> nat \<Rightarrow> 'a option" where
  "element_at [] i = None"
| "element_at (x # xs) 0 = Some x"
| "element_at (x # xs) (Suc i) = element_at xs i"

text \<open>\<^verbatim>\<open>s || fallback\<close> for a string that may be absent: the empty string is falsy too.\<close>

fun or_else :: "string option \<Rightarrow> string \<Rightarrow> string" where
  "or_else None fallback = fallback"
| "or_else (Some s) fallback = (if s = [] then fallback else s)"

text \<open>A string that may be \<^verbatim>\<open>undefined\<close> inside \<^verbatim>\<open>${...}\<close>.\<close>

fun show_undefined :: "string option \<Rightarrow> string" where
  "show_undefined None = ''undefined''"
| "show_undefined (Some s) = s"

text \<open>\<^verbatim>\<open>n || 0\<close> for a nullable count.\<close>

fun or_zero :: "int option \<Rightarrow> int" where
  "or_zero None = 0"
| "or_zero (Some n) = n"

text \<open>\<^verbatim>\<open>!n\<close> for a nullable number: absent and zero are both falsy.\<close>

fun falsy :: "int option \<Rightarrow> bool" where
  "falsy None = True"
| "falsy (Some n) = (n = 0)"

text \<open>\<^verbatim>\<open>String.prototype.toLowerCase\<close> on ASCII text: only \<open>A\<close> to \<open>Z\<close> change.\<close>

definition lower_char :: "char \<Rightarrow> char" where
  "lower_char c =
     (let code = (of_char c :: nat)
      in if 65 \<le> code \<and> code \<le> 90 then char_of (code + 32) else c)"

definition toLowerCase :: "string \<Rightarrow> string" where
  "toLowerCase s = map lower_char s"

text \<open>\<^verbatim>\<open>String.prototype.includes\<close>: the argument occurs as a contiguous substring.\<close>

definition string_includes :: "string \<Rightarrow> string \<Rightarrow> bool" where
  "string_includes s needle = sublist needle s"

section \<open>Wedge detector\<close>

text \<open>A row of \<^verbatim>\<open>linkedin_posts\<close>; every column but the two flags may be \<^verbatim>\<open>NULL\<close>.
  \<open>post_date\<close> is in milliseconds since the epoch.\<close>

record post =
  post_url :: "string option"
  post_date :: "int option"
  post_content :: "string option"
  engagement_count :: "int option"
  topics_detected :: "string list option"
  key_themes :: "string list option"
  mentions_pain_points :: bool
  mentions_buying_signals :: bool

text \<open>A row of \<^verbatim>\<open>linkedin_activity\<close>. The table has no \<^verbatim>\<open>current_company\<close> column, so
  the field the detector reads is \<open>None\<close> on every stored row.\<close>

record profile =
  influence_score :: "real option"
  connections_count :: "int option"
  followers_count :: "int option"
  current_position_tenure_months :: "int option"
  previous_companies :: "string list option"
  location :: "string option"
  current_company :: "string option"

text \<open>A row of \<^verbatim>\<open>github_activity\<close>; \<open>primary_languages\<close> holds the \<^verbatim>\<open>language\<close> of each
  entry of the JSON array.\<close>

record github =
  github_username :: "string option"
  primary_languages :: "string list option"
  activity_score :: "real option"

datatype wedge_type =
    linkedin_pain_point
  | linkedin_buying_signal
  | linkedin_job_change_recent
  | linkedin_job_change_optimal
  | linkedin_thought_leadership
  | linkedin_active_poster
  | technical_buyer
  | company_initiative

fun type_name :: "wedge_type \<Rightarrow> string" where
  "type_name linkedin_pain_point = ''linkedin_pain_point''"
| "type_name linkedin_buying_signal = ''linkedin_buying_signal''"
| "type_name linkedin_job_change_recent = ''linkedin_job_change_recent''"
| "type_name linkedin_job_change_optimal = ''linkedin_job_change_optimal''"
| "type_name linkedin_thought_leadership = ''linkedin_thought_leadership''"
| "type_name linkedin_active_poster = ''linkedin_active_poster''"
| "type_name technical_buyer = ''technical_buyer''"
| "type_name company_initiative = ''company_initiative''"

text \<open>The \<^verbatim>\<open>details\<close> object of a wedge, one constructor per rule, arguments in the order
  of the keys in the source.\<close>

datatype details =
    PainPointDetails "string option" "int option" int "string list" "int option" string
  | BuyingSignalDetails "string option" "int option" int string
  | JobChangeDetails int string
  | ThoughtLeadershipDetails "string option" "int option" int "string list" int
  | ActivePosterDetails nat "string list"
  | TechnicalBuyerDetails "real option" "string list option" nat
  | CompanyInitiativeDetails string "raw_data option"

record wedge =
  type :: wedge_type
  score :: real
  description :: string
  details :: details
  openingHook :: string
  timingRationale :: string
  conversationStarters :: "string list"

record detection =
  wedges :: "wedge list"
  primaryWedge :: "wedge option"
  wedgeCount :: nat

text \<open>\<^verbatim>\<open>Math.floor((Date.now() - new Date(date).getTime()) / 86400000)\<close>;
  \<^verbatim>\<open>new Date(null)\<close> is the epoch.\<close>

definition getDaysSince :: "int \<Rightarrow> int option \<Rightarrow> int" where
  "getDaysSince now date = (now - or_zero date) div (1000 * 60 * 60 * 24)"

text \<open>\<^verbatim>\<open>post.key_themes[0]\<close> throws when \<^verbatim>\<open>key_themes\<close> is \<^verbatim>\<open>null\<close>.\<close>

definition generatePainPointHook :: "post \<Rightarrow> error + string" where
  "generatePainPointHook post =
     (case key_themes post of
        None \<Rightarrow> Inl (typeError ''0'')
      | Some themes \<Rightarrow>
          let theme = or_else (element_at themes 0) ''this challenge''
          in Inr (''Saw your recent post about '' @ theme @ '' - the ''
                  @ show_nullable_int (engagement_count post)
                  @ '' responses show it's a common frustration. We've helped similar companies tackle this.''))"

text \<open>Called on a content that \<^verbatim>\<open>substring\<close> has already read.\<close>

definition extractBuyingIntent :: "string \<Rightarrow> string" where
  "extractBuyingIntent content =
     (let lowerContent = toLowerCase content
      in if string_includes lowerContent ''recommend'' then ''recommendations''
         else if string_includes lowerContent ''evaluat'' then ''solutions to evaluate''
         else if string_includes lowerContent ''looking for'' then ''a solution''
         else if string_includes lowerContent ''anyone use'' then ''tool recommendations''
         else ''solutions'')"

text \<open>The object pushed by the \<^verbatim>\<open>forEach\<close> callback of \<^verbatim>\<open>detectPainPointWedges\<close>, its
  properties evaluated in the order of the source: \<^verbatim>\<open>post.post_content.substring\<close> first,
  then the hook and the conversation starters, which read \<^verbatim>\<open>post.key_themes[0]\<close>.\<close>

definition painPointWedge :: "int \<Rightarrow> post \<Rightarrow> error + wedge" where
  "painPointWedge now post =
     (let daysSincePost = getDaysSince now (post_date post);
          recencyBoost =
            (if daysSincePost < 7 then 0.15 else if daysSincePost < 14 then 0.10 else 0.05)
      in case post_content post of
           None \<Rightarrow> Inl (typeError ''substring'')
         | Some content \<Rightarrow>
        (case generatePainPointHook post of
           Inl err \<Rightarrow> Inl err
         | Inr hook \<Rightarrow>
        (case key_themes post of
           None \<Rightarrow> Inl (typeError ''0'')
         | Some themes \<Rightarrow>
             Inr \<lparr>type = linkedin_pain_point,
                  score = 0.95 + recencyBoost,
                  description = ''Recent LinkedIn post discussing pain points'',
                  details = PainPointDetails (post_url post) (post_date post) daysSincePost
                              themes (engagement_count post) (take 200 content),
                  openingHook = hook,
                  timingRationale =
                    ''Posted '' @ show_int daysSincePost @ '' days ago with ''
                    @ show_nullable_int (engagement_count post)
                    @ '' engagements - indicates active, shared pain point'',
                  conversationStarters =
                    [''Saw your recent post about '' @ or_else (element_at themes 0) ''challenges'',
                     ''The '' @ show_nullable_int (engagement_count post)
                       @ '' responses to your post show this is a common issue'',
                     ''Your point about '' @ or_else (element_at themes 0) ''the problem''
                       @ '' really resonated'']\<rparr>)))"

text \<open>\<^verbatim>\<open>xs.forEach(x => { wedges.push(f(x)) })\<close> where \<open>f\<close> may throw: the first exception
  ends the loop and leaves the function.\<close>

fun forEach_push :: "('a \<Rightarrow> error + 'b) \<Rightarrow> 'a list \<Rightarrow> error + 'b list" where
  "forEach_push f [] = Inr []"
| "forEach_push f (x # xs) =
     (case f x of
        Inl err \<Rightarrow> Inl err
      | Inr y \<Rightarrow> (case forEach_push f xs of Inl err \<Rightarrow> Inl err | Inr ys \<Rightarrow> Inr (y # ys)))"

definition detectPainPointWedges :: "int \<Rightarrow> post list \<Rightarrow> error + wedge list" where
  "detectPainPointWedges now posts =
     (let painPointPosts = filter mentions_pain_points posts
      in forEach_push (painPointWedge now) painPointPosts)"

definition buyingSignalWedge :: "int \<Rightarrow> post \<Rightarrow> error + wedge" where
  "buyingSignalWedge now post =
     (let daysSince = getDaysSince now (post_date post)
      in case post_content post of
           None \<Rightarrow> Inl (typeError ''substring'')
         | Some content \<Rightarrow>
        (case key_themes post of
           None \<Rightarrow> Inl (typeError ''0'')
         | Some themes \<Rightarrow>
             Inr \<lparr>type = linkedin_buying_signal,
                  score = 0.98,
                  description = ''Active buying signal detected in LinkedIn post'',
                  details = BuyingSignalDetails (post_url post) (post_date post) daysSince
                              (take 200 content),
                  openingHook =
                    ''Saw you're looking for '' @ extractBuyingIntent content
                    @ '' - happy to share what's worked for similar companies'',
                  timingRationale =
                    ''Active evaluation happening now - posted '' @ show_int daysSince
                    @ '' days ago'',
                  conversationStarters =
                    [''Saw your question about solutions for ''
                       @ show_undefined (element_at themes 0),
                     ''Happy to share how similar companies approached this'',
                     ''Would love to share what we've learned from others in your situation'']\<rparr>))"

definition detectBuyingSignalWedges :: "int \<Rightarrow> post list \<Rightarrow> error + wedge list" where
  "detectBuyingSignalWedges now posts =
     (let buyingSignalPosts = filter mentions_buying_signals posts
      in forEach_push (buyingSignalWedge now) buyingSignalPosts)"

definition jobChangeRecentWedge :: "profile \<Rightarrow> int \<Rightarrow> wedge" where
  "jobChangeRecentWedge profile tenureMonths =
     \<lparr>type = linkedin_job_change_recent,
      score = 0.90,
      description = ''Recently joined company '' @ show_int tenureMonths @ '' months ago'',
      details = JobChangeDetails tenureMonths ''evaluation'',
      openingHook =
        ''Congrats on the new role! Curious how you're approaching [relevant challenge] as you get settled'',
      timingRationale =
        show_int tenureMonths
        @ '' months in - still in evaluation phase, likely reviewing tech stack'',
      conversationStarters =
        [''Congrats on joining '' @ or_else (current_company profile) ''your company'',
         ''Curious what you're prioritizing in your first few months'',
         ''How are you thinking about [relevant area] in your new role'']\<rparr>"

definition jobChangeOptimalWedge :: "int \<Rightarrow> wedge" where
  "jobChangeOptimalWedge tenureMonths =
     \<lparr>type = linkedin_job_change_optimal,
      score = 0.85,
      description =
        show_int tenureMonths @ '' months into current role - past honeymoon phase'',
      details = JobChangeDetails tenureMonths ''optimization'',
      openingHook =
        show_int tenureMonths @ '' months in - curious what challenges you're focusing on now'',
      timingRationale =
        ''Past honeymoon phase but not entrenched - optimal time to evaluate new solutions'',
      conversationStarters =
        [''What's top of mind for you these days'',
         ''What challenges are you tackling now that you're '' @ show_int tenureMonths
           @ '' months in'',
         ''How's your approach to [relevant area] evolved since joining'']\<rparr>"

text \<open>The second parameter, \<^verbatim>\<open>signals\<close>, is not read by the source.\<close>

definition detectJobChangeWedges :: "profile option \<Rightarrow> signal list \<Rightarrow> wedge list" where
  "detectJobChangeWedges profile signals =
     (case profile of
        None \<Rightarrow> []
      | Some p \<Rightarrow>
          if falsy (current_position_tenure_months p) then []
          else
            let tenureMonths = or_zero (current_position_tenure_months p)
            in if tenureMonths < 6 then [jobChangeRecentWedge p tenureMonths]
               else if tenureMonths \<ge> 6 \<and> tenureMonths \<le> 12
               then [jobChangeOptimalWedge tenureMonths]
               else [])"

text \<open>\<^verbatim>\<open>posts.reduce((sum, p) => sum + (p.engagement_count || 0), 0) / posts.length\<close>.\<close>

definition averageEngagement :: "post list \<Rightarrow> real" where
  "averageEngagement posts =
     real_of_int (foldl (\<lambda>sum p. sum + or_zero (engagement_count p)) 0 posts)
     / real (length posts)"

text \<open>\<^verbatim>\<open>topicCounts[topic] = (topicCounts[topic] || 0) + 1\<close> on an object whose keys keep
  their insertion order (topic names that are array indices or names of
  \<^verbatim>\<open>Object.prototype\<close> members are not topics the analysis produces). A post without
  \<^verbatim>\<open>topics_detected\<close> is skipped.\<close>

fun countTopic :: "(string \<times> nat) list \<Rightarrow> string \<Rightarrow> (string \<times> nat) list" where
  "countTopic [] topic = [(topic, 1)]"
| "countTopic ((k, c) # rest) topic =
     (if k = topic then (k, c + 1) # rest else (k, c) # countTopic rest topic)"

definition extractTopTopics :: "post list \<Rightarrow> string list" where
  "extractTopTopics posts =
     (let topicCounts =
            foldl (\<lambda>counts post.
                     case topics_detected post of
                       None \<Rightarrow> counts
                     | Some topics \<Rightarrow> foldl countTopic counts topics)
              [] posts
      in slice (map fst (sort_key (\<lambda>entry. - int (snd entry)) topicCounts)) 0 3)"

text \<open>The hook reads \<^verbatim>\<open>topPost.key_themes[0]\<close>, and the conversation starters read
  \<^verbatim>\<open>topPost.topics_detected[0]\<close>, whatever the theme is.\<close>

definition thoughtLeadershipWedge :: "int \<Rightarrow> real \<Rightarrow> post \<Rightarrow> error + wedge" where
  "thoughtLeadershipWedge now avgEngagement topPost =
     (let daysSince = getDaysSince now (post_date topPost)
      in case key_themes topPost of
           None \<Rightarrow> Inl (typeError ''0'')
         | Some themes \<Rightarrow>
        (case topics_detected topPost of
           None \<Rightarrow> Inl (typeError ''0'')
         | Some topics \<Rightarrow>
             Inr \<lparr>type = linkedin_thought_leadership,
                  score = 0.85,
                  description = ''High-engagement LinkedIn post on relevant topic'',
                  details = ThoughtLeadershipDetails (post_url topPost) (engagement_count topPost)
                              (round avgEngagement) topics daysSince,
                  openingHook =
                    ''Loved your recent post on ''
                    @ (case element_at themes 0 of
                         None \<Rightarrow> show_undefined (element_at topics 0)
                       | Some theme \<Rightarrow>
                           if theme = [] then show_undefined (element_at topics 0) else theme)
                    @ '' - especially your point about [specific insight]'',
                  timingRationale =
                    ''High engagement ('' @ show_nullable_int (engagement_count topPost)
                    @ '' vs '' @ show_int (round avgEngagement)
                    @ '' average) shows this topic resonates with their audience'',
                  conversationStarters =
                    [''Your post about '' @ or_else (element_at themes 0) ''this topic''
                       @ '' really resonated'',
                     ''The engagement on your recent post was impressive'',
                     ''Would love to hear more about your thoughts on ''
                       @ show_undefined (element_at topics 0)]\<rparr>))"

definition activePosterWedge :: "post list \<Rightarrow> wedge" where
  "activePosterWedge posts =
     (let topTopics = extractTopTopics posts
      in \<lparr>type = linkedin_active_poster,
          score = 0.75,
          description =
            ''Active LinkedIn poster ('' @ show_nat (length posts) @ '' posts recently)'',
          details = ActivePosterDetails (length posts) topTopics,
          openingHook =
            ''Appreciate your LinkedIn content on '' @ show_undefined (element_at topTopics 0)
            @ '' - clear you're thinking deeply about this'',
          timingRationale =
            ''Active on LinkedIn - responsive to DMs and engaged with their network'',
          conversationStarters =
            [''Love following your LinkedIn content'',
             ''Your posts on '' @ show_undefined (element_at topTopics 0)
               @ '' are always insightful'',
             ''Clearly you're passionate about '' @ show_undefined (element_at topTopics 0)]\<rparr>)"

definition highEngagementPosts :: "post list \<Rightarrow> post list" where
  "highEngagementPosts posts =
     filter (\<lambda>p. real_of_int (or_zero (engagement_count p)) > averageEngagement posts * 2) posts"

definition detectThoughtLeadershipWedges :: "int \<Rightarrow> post list \<Rightarrow> error + wedge list" where
  "detectThoughtLeadershipWedges now posts =
     (if length posts = 0 then Inr []
      else
        let avgEngagement = averageEngagement posts;
            activePoster = (if length posts \<ge> 10 then [activePosterWedge posts] else [])
        in case highEngagementPosts posts of
             [] \<Rightarrow> Inr activePoster
           | topPost # others \<Rightarrow>
               (case thoughtLeadershipWedge now avgEngagement topPost of
                  Inl err \<Rightarrow> Inl err
                | Inr w \<Rightarrow> Inr ([w] @ activePoster)))"

text \<open>\<^verbatim>\<open>activity_score > 0.6\<close>: a \<^verbatim>\<open>null\<close> score compares as \<open>0\<close>.\<close>

fun score_above :: "real option \<Rightarrow> real \<Rightarrow> bool" where
  "score_above None bound = (0 > bound)"
| "score_above (Some x) bound = (x > bound)"

text \<open>The callback of \<^verbatim>\<open>posts.filter\<close>, with its guard \<^verbatim>\<open>p.topics_detected || []\<close>.\<close>

definition isTechnicalPost :: "post \<Rightarrow> bool" where
  "isTechnicalPost p =
     (let topics = (case topics_detected p of None \<Rightarrow> [] | Some ts \<Rightarrow> ts)
      in list_ex
           (\<lambda>t. List.member [''API'', ''integration'', ''technical'', ''developer'', ''automation''] t)
           topics)"

definition technicalWedge :: "github \<Rightarrow> post list \<Rightarrow> wedge" where
  "technicalWedge githubActivity technicalPosts =
     \<lparr>type = technical_buyer,
      score = 0.80,
      description = ''Technical buyer with LinkedIn + GitHub activity'',
      details = TechnicalBuyerDetails (activity_score githubActivity)
                  (primary_languages githubActivity) (length technicalPosts),
      openingHook =
        ''Noticed your work in ''
        @ or_else (case primary_languages githubActivity of
                     None \<Rightarrow> None | Some languages \<Rightarrow> element_at languages 0)
            ''software development''
        @ '' - curious how you evaluate technical solutions'',
      timingRationale =
        ''Hands-on technical evaluator - values API docs, technical architecture'',
      conversationStarters =
        [''Saw your GitHub work in ''
           @ show_undefined (case primary_languages githubActivity of
                               None \<Rightarrow> None | Some languages \<Rightarrow> element_at languages 0),
         ''How do you typically evaluate technical solutions'',
         ''What matters most to you in terms of technical architecture'']\<rparr>"

definition detectTechnicalWedges :: "post list \<Rightarrow> github option \<Rightarrow> wedge list" where
  "detectTechnicalWedges posts githubActivity =
     (case githubActivity of
        None \<Rightarrow> []
      | Some g \<Rightarrow>
          let technicalPosts = filter isTechnicalPost posts
          in if length technicalPosts > 0 \<and> score_above (activity_score g) 0.6
             then [technicalWedge g technicalPosts]
             else [])"

definition initiativeWedge :: "signal \<Rightarrow> wedge" where
  "initiativeWedge s =
     \<lparr>type = company_initiative,
      score = 0.70,
      description = ''Company hiring/initiative signals detected'',
      details = CompanyInitiativeDetails (signal.description s) (raw_data s),
      openingHook =
        ''Noticed your company is [hiring/expanding] in [area] - curious how that ties into your priorities'',
      timingRationale = ''Company expansion creates budget and urgency for new tools'',
      conversationStarters =
        [''Saw your company is expanding in [area]'',
         ''How does [initiative] tie into your priorities'',
         ''What's driving the [hiring/expansion]'']\<rparr>"

definition detectInitiativeWedges :: "signal list \<Rightarrow> wedge list" where
  "detectInitiativeWedges signals =
     (let initiativeSignals =
            filter (\<lambda>s. signal_category s = ''timing_trigger'' \<and>
                        (signal_type s = ''company_hiring'' \<or> signal_type s = ''company_initiatives''))
              signals
      in case initiativeSignals of
           [] \<Rightarrow> []
         | s # others \<Rightarrow> [initiativeWedge s])"

text \<open>The six rule calls of \<^verbatim>\<open>detectWedges\<close> with their \<^verbatim>\<open>wedges.push(...)\<close>, in order,
  before the sort; an exception of a rule leaves the sequence.\<close>

definition collectWedges ::
  "int \<Rightarrow> profile option \<Rightarrow> post list \<Rightarrow> signal list \<Rightarrow> github option
   \<Rightarrow> error + wedge list" where
  "collectWedges now linkedinProfile linkedinPosts signals githubActivity =
     (case detectPainPointWedges now linkedinPosts of
        Inl err \<Rightarrow> Inl err
      | Inr painPointWedges \<Rightarrow>
     (case detectBuyingSignalWedges now linkedinPosts of
        Inl err \<Rightarrow> Inl err
      | Inr buyingSignalWedges \<Rightarrow>
     (let jobChangeWedges = detectJobChangeWedges linkedinProfile signals
      in case detectThoughtLeadershipWedges now linkedinPosts of
           Inl err \<Rightarrow> Inl err
         | Inr thoughtLeadershipWedges \<Rightarrow>
             Inr (painPointWedges @ buyingSignalWedges @ jobChangeWedges
                  @ thoughtLeadershipWedges
                  @ detectTechnicalWedges linkedinPosts githubActivity
                  @ detectInitiativeWedges signals))))"

definition emptyDetection :: detection where
  "emptyDetection = \<lparr>wedges = [], primaryWedge = None, wedgeCount = 0\<rparr>"

text \<open>The four arguments after \<open>now\<close> are the outcomes of the four queries of the
  \<^verbatim>\<open>Promise.all\<close>. The \<^verbatim>\<open>catch\<close> gives the empty detection for a rejected query and for an
  exception thrown by a rule alike.\<close>

definition detectWedges ::
  "int \<Rightarrow> profile option fetch \<Rightarrow> post list fetch \<Rightarrow> signal list fetch \<Rightarrow> github option fetch
   \<Rightarrow> detection" where
  "detectWedges now getProfile getRecentPosts getSignalsByContact getActivity =
     (case (getProfile, getRecentPosts, getSignalsByContact, getActivity) of
        (Inr linkedinProfile, Inr linkedinPosts, Inr signals, Inr githubActivity) \<Rightarrow>
          (case collectWedges now linkedinProfile linkedinPosts signals githubActivity of
             Inl err \<Rightarrow> emptyDetection
           | Inr collected \<Rightarrow>
               let sortedWedges = sort_key (\<lambda>w. - score w) collected
               in \<lparr>wedges = sortedWedges,
                   primaryWedge = (case sortedWedges of [] \<Rightarrow> None | w # others \<Rightarrow> Some w),
                   wedgeCount = length sortedWedges\<rparr>)
      | _ \<Rightarrow> emptyDetection)"

section \<open>Playbook generator\<close>

record contact =
  full_name :: string
  current_company :: "string option"
  current_title :: "string option"

record speaking_engagement =
  topics :: "string list option"
  platform :: "string option"

record channels =
  linkedin_dm :: real
  email :: real
  phone :: real

record trigger_post =
  url :: "string option"
  date :: "int option"
  content_summary :: string
  engagement_level :: string
  trigger_topics :: "string list option"

record profile_signals =
  tenure :: string
  tenure_phase :: string
  recent_change :: bool

record linkedin_context =
  context_influence_score :: "real option"
  connections :: "int option"
  followers :: "int option"
  recent_posts_count :: nat
  posting_frequency :: string
  trigger_post :: "trigger_post option"
  profile_signals :: "profile_signals option"

record full_strategy =
  strategy_contact :: contact
  strategy_primaryWedge :: wedge
  allWedges :: "wedge list"
  topSignals :: "scored_signal list"
  linkedinActivity_profile :: "profile option"
  linkedinActivity_recentPosts :: "post list"
  strategy_githubActivity :: "github option"
  speakingEngagements :: "speaking_engagement list"

record playbook =
  primary_wedge :: string
  wedge_score :: real
  linkedin_context :: "linkedin_context option"
  supporting_evidence :: "string list"
  personalization_hooks :: "string list"
  timing_rationale :: string
  recommended_channels :: channels
  sample_outreach :: string
  competitive_context :: string
  conversation_starters :: "string list"
  full_strategy_json :: full_strategy

text \<open>\<^verbatim>\<open>{ success: true, playbook }\<close> or \<^verbatim>\<open>{ success: false, error }\<close>.\<close>

datatype result = Success playbook | Failure string

text \<open>A nullable text column inside \<^verbatim>\<open>${...}\<close>.\<close>

fun show_null :: "string option \<Rightarrow> string" where
  "show_null None = ''null''"
| "show_null (Some s) = s"

text \<open>\<^verbatim>\<open>Array.prototype.join\<close>.\<close>

fun join :: "string list \<Rightarrow> string \<Rightarrow> string" where
  "join [] separator = []"
| "join [x] separator = x"
| "join (x # y # rest) separator = x @ separator @ join (y # rest) separator"

text \<open>\<^verbatim>\<open>contact.full_name.split(' ')[0]\<close>.\<close>

definition firstName :: "contact \<Rightarrow> string" where
  "firstName contact = takeWhile (\<lambda>c. c \<noteq> CHR '' '') (full_name contact)"

text \<open>\<^verbatim>\<open>details.postUrl\<close> and \<^verbatim>\<open>details.githubLanguages\<close>: \<open>None\<close> where the object has
  no such key.\<close>

fun postUrl :: "details \<Rightarrow> string option" where
  "postUrl (PainPointDetails u d n ts e c) = u"
| "postUrl (BuyingSignalDetails u d n c) = u"
| "postUrl (ThoughtLeadershipDetails u e a ts n) = u"
| "postUrl other = None"

fun githubLanguages :: "details \<Rightarrow> string list option" where
  "githubLanguages (TechnicalBuyerDetails a languages n) = languages"
| "githubLanguages other = None"

fun truthy :: "string option \<Rightarrow> bool" where
  "truthy None = False"
| "truthy (Some s) = (s \<noteq> [])"

definition assessPostingFrequency :: "nat \<Rightarrow> string" where
  "assessPostingFrequency postCount =
     (if postCount \<ge> 15 then ''very high''
      else if postCount \<ge> 10 then ''high''
      else if postCount \<ge> 5 then ''medium''
      else ''low'')"

text \<open>\<^verbatim>\<open>postEngagement / avgEngagement\<close> is \<^verbatim>\<open>Infinity\<close>, \<^verbatim>\<open>-Infinity\<close> or \<^verbatim>\<open>NaN\<close> when the
  average is zero; only a positive post engagement then passes a comparison.\<close>

definition assessEngagementLevel :: "int option \<Rightarrow> real \<Rightarrow> string" where
  "assessEngagementLevel postEngagement avgEngagement =
     (if avgEngagement = 0
      then (if or_zero postEngagement > 0 then ''very high'' else ''low'')
      else
        let ratio = real_of_int (or_zero postEngagement) / avgEngagement
        in if ratio \<ge> 2 then ''very high''
           else if ratio \<ge> 1.5 then ''high''
           else if ratio \<ge> 0.8 then ''medium''
           else ''low'')"

definition getTenurePhase :: "int \<Rightarrow> string" where
  "getTenurePhase months =
     (if months < 3 then ''onboarding''
      else if months < 6 then ''evaluation''
      else if months < 12 then ''optimization''
      else if months < 24 then ''established''
      else ''entrenched'')"

definition formatSignalAsEvidence :: "scored_signal \<Rightarrow> string" where
  "formatSignalAsEvidence s =
     signal.description s @ '' (relevance: '' @ show_int (round (relevance_score s * 100)) @ ''%)''"

text \<open>\<^verbatim>\<open>triggerPost.post_content.substring(0, 150)\<close> throws when the content is \<^verbatim>\<open>null\<close>.\<close>

definition buildTriggerPost :: "post list \<Rightarrow> post \<Rightarrow> error + trigger_post" where
  "buildTriggerPost posts triggerPost =
     (case post_content triggerPost of
        None \<Rightarrow> Inl (typeError ''substring'')
      | Some content \<Rightarrow>
          Inr \<lparr>url = post_url triggerPost,
               date = post_date triggerPost,
               content_summary = take 150 content @ ''...'',
               engagement_level =
                 assessEngagementLevel (engagement_count triggerPost) (averageEngagement posts),
               trigger_topics = topics_detected triggerPost\<rparr>)"

definition buildProfileSignals :: "profile \<Rightarrow> profile_signals option" where
  "buildProfileSignals p =
     (if falsy (current_position_tenure_months p) then None
      else
        let months = or_zero (current_position_tenure_months p)
        in Some
             \<lparr>tenure = show_int months @ '' months'',
              tenure_phase = getTenurePhase months,
              recent_change = (months < 6)\<rparr>)"

definition buildLinkedInContext ::
  "profile option \<Rightarrow> post list \<Rightarrow> wedge \<Rightarrow> error + linkedin_context option" where
  "buildLinkedInContext profile posts primary =
     (case profile of
        None \<Rightarrow> Inr None
      | Some p \<Rightarrow>
          (case (if prefix ''linkedin_'' (type_name (type primary))
                    \<and> truthy (postUrl (details primary))
                 then
                   (case find (\<lambda>q. post_url q = postUrl (details primary)) posts of
                      None \<Rightarrow> Inr None
                    | Some triggerPost \<Rightarrow>
                        (case buildTriggerPost posts triggerPost of
                           Inl err \<Rightarrow> Inl err
                         | Inr t \<Rightarrow> Inr (Some t)))
                 else Inr None) of
             Inl err \<Rightarrow> Inl err
           | Inr trigger \<Rightarrow>
               Inr (Some
                 \<lparr>context_influence_score = influence_score p,
                  connections = connections_count p,
                  followers = followers_count p,
                  recent_posts_count = length posts,
                  posting_frequency = assessPostingFrequency (length posts),
                  trigger_post = trigger,
                  profile_signals = buildProfileSignals p\<rparr>)))"

definition buildSupportingEvidence :: "scored_signal list \<Rightarrow> detection \<Rightarrow> string list" where
  "buildSupportingEvidence signals detected =
     map formatSignalAsEvidence (slice signals 0 5)
     @ map (\<lambda>w. description w @ '' ('' @ type_name (type w) @ '')'') (slice (wedges detected) 1 4)"

definition buildPersonalizationHooks ::
  "contact \<Rightarrow> profile option \<Rightarrow> github option \<Rightarrow> speaking_engagement list \<Rightarrow> string list" where
  "buildPersonalizationHooks contact linkedinProfile githubActivity speaking =
     (case linkedinProfile of
        None \<Rightarrow> []
      | Some p \<Rightarrow>
          (case previous_companies p of
             None \<Rightarrow> []
           | Some companies \<Rightarrow>
               if length companies > 0
               then [''Previously worked at '' @ show_undefined (element_at companies 0)
                       @ '' - interesting transition'']
               else [])
          @ (if truthy (location p) then [''Based in '' @ show_null (location p)] else []))
     @ (case githubActivity of
          None \<Rightarrow> []
        | Some g \<Rightarrow>
            if truthy (github_username g)
            then
              (let topLang = (case primary_languages g of
                                None \<Rightarrow> None | Some languages \<Rightarrow> element_at languages 0)
               in if truthy topLang
                  then [''Technical background in '' @ show_undefined topLang @ '' development'']
                  else [])
            else [])
     @ (case speaking of
          [] \<Rightarrow> []
        | latestTalk # others \<Rightarrow>
            [''Recently spoke about ''
               @ or_else (case topics latestTalk of None \<Rightarrow> None | Some ts \<Rightarrow> element_at ts 0)
                   ''industry topics''
               @ '' at '' @ show_null (platform latestTalk)])
     @ (if truthy (contact.current_company contact)
        then [''Currently at '' @ show_null (contact.current_company contact) @ '' as ''
                @ or_else (current_title contact) ''team member'']
        else [])"

definition buildTimingRationale ::
  "wedge \<Rightarrow> profile option \<Rightarrow> scored_signal list \<Rightarrow> string" where
  "buildTimingRationale primary linkedinProfile signals =
     (let tenureSentence =
            (case linkedinProfile of
               None \<Rightarrow> []
             | Some p \<Rightarrow>
                 if falsy (current_position_tenure_months p) then []
                 else
                   let tenure = or_zero (current_position_tenure_months p)
                   in if tenure < 6
                      then [''In first 6 months of new role - actively evaluating tools and processes'']
                      else if tenure \<ge> 6 \<and> tenure \<le> 12
                      then [''Past honeymoon phase - has context to identify gaps and push for changes'']
                      else []);
          urgentSignals = filter (\<lambda>s. urgency_score s > 0.8) signals;
          urgencySentence =
            (if length urgentSignals > 0
             then [show_nat (length urgentSignals)
                     @ '' high-urgency signals detected - time-sensitive opportunity'']
             else [])
      in join ([timingRationale primary] @ tenureSentence @ urgencySentence) ''. '')"

text \<open>The object literal and the assignments of \<^verbatim>\<open>recommendChannels\<close>, in order.\<close>

definition recommendChannels ::
  "profile option \<Rightarrow> post list option \<Rightarrow> github option \<Rightarrow> channels" where
  "recommendChannels linkedinProfile linkedinPosts githubActivity =
     (let channels0 = \<lparr>linkedin_dm = 0.5, email = 0.7, phone = 0.3\<rparr>;
          channels1 =
            (case linkedinPosts of
               None \<Rightarrow> channels0
             | Some posts \<Rightarrow>
                 if length posts \<ge> 5 then channels0\<lparr>linkedin_dm := 0.95, email := 0.6\<rparr>
                 else channels0);
          channels2 = channels1\<lparr>email := 0.8\<rparr>;
          channels3 =
            (case githubActivity of
               None \<Rightarrow> channels2
             | Some g \<Rightarrow>
                 if score_above (activity_score g) 0.6 then channels2\<lparr>phone := 0.2, email := 0.9\<rparr>
                 else channels2)
      in channels3)"

definition buildCompetitiveContext :: "scored_signal list \<Rightarrow> string" where
  "buildCompetitiveContext signals =
     (let techStackSignals = filter (\<lambda>s. signal_type s = ''company_tech_stack'') signals
      in case techStackSignals of
           [] \<Rightarrow> ''No current tech stack information available''
         | s # others \<Rightarrow>
             let stack = (case raw_data s of
                            None \<Rightarrow> []
                          | Some raw \<Rightarrow> (case techStack raw of None \<Rightarrow> [] | Some ts \<Rightarrow> ts))
             in ''Current stack includes: '' @ join stack '', ''
                @ ''. Potential displacement opportunities.'')"

subsection \<open>Outreach templates\<close>

definition generatePainPointOutreach ::
  "contact \<Rightarrow> wedge \<Rightarrow> profile option \<Rightarrow> post list \<Rightarrow> string" where
  "generatePainPointOutreach contact w profile posts =
     (let found = find (\<lambda>p. post_url p = postUrl (details w)) posts;
          theme = or_else (case found of
                             None \<Rightarrow> None
                           | Some p \<Rightarrow>
                               (case key_themes p of None \<Rightarrow> None | Some themes \<Rightarrow> element_at themes 0))
                    ''this challenge'';
          engagement = (case found of None \<Rightarrow> 0 | Some p \<Rightarrow> or_zero (engagement_count p))
      in ''Hi '' @ firstName contact @ '',\<newline>\<newline>''
         @ ''Saw your recent post about '' @ theme @ '' - the '' @ show_int engagement
         @ '' responses show this is hitting a nerve for a lot of folks.\<newline>\<newline>''
         @ ''We've worked with several '' @ show_null (current_title contact)
         @ ''s at similar companies who were wrestling with the same issue. One example: [similar company] cut their [metric] by 40% after making a few changes to how they approached this.\<newline>\<newline>''
         @ ''Would you be open to a quick 15-minute call to share what worked for them? No pitch, just happy to share what we've learned.\<newline>\<newline>''
         @ ''Best,\<newline>[Your name]'')"

definition generateBuyingSignalOutreach ::
  "contact \<Rightarrow> wedge \<Rightarrow> profile option \<Rightarrow> post list \<Rightarrow> string" where
  "generateBuyingSignalOutreach contact w profile posts =
     ''Hi '' @ firstName contact @ '',\<newline>\<newline>''
     @ ''Saw your post asking about [solution category] recommendations. Happy to share what's worked for similar companies - a few folks in your situation ended up choosing between [option A] and [option B] based on [key factor].\<newline>\<newline>''
     @ ''Would a quick call to walk through the decision framework be helpful? I can share what we've learned from helping others evaluate options.\<newline>\<newline>''
     @ ''Best,\<newline>[Your name]''"

definition generateJobChangeOutreach ::
  "contact \<Rightarrow> wedge \<Rightarrow> profile option \<Rightarrow> post list \<Rightarrow> string" where
  "generateJobChangeOutreach contact w profile posts =
     (let months =
            (case profile of
               None \<Rightarrow> ''recently''
             | Some p \<Rightarrow>
                 if falsy (current_position_tenure_months p) then ''recently''
                 else show_int (or_zero (current_position_tenure_months p)))
      in ''Hi '' @ firstName contact @ '',\<newline>\<newline>''
         @ ''Congrats on the '' @ show_null (current_title contact) @ '' role at ''
         @ show_null (contact.current_company contact) @ ''! Saw you joined about '' @ months
         @ '' months ago.\<newline>\<newline>''
         @ ''Curious what you're prioritizing as you get settled - we've worked with several folks who came into similar roles and found [specific challenge] was the first thing they wanted to tackle.\<newline>\<newline>''
         @ ''Would love to hear what's top of mind for you. Open to a quick chat?\<newline>\<newline>''
         @ ''Best,\<newline>[Your name]'')"

definition generateThoughtLeadershipOutreach ::
  "contact \<Rightarrow> wedge \<Rightarrow> profile option \<Rightarrow> post list \<Rightarrow> string" where
  "generateThoughtLeadershipOutreach contact w profile posts =
     (let topPost = element_at posts 0;
          theme = (case topPost of
                     None \<Rightarrow> None
                   | Some p \<Rightarrow>
                       (case key_themes p of None \<Rightarrow> None | Some themes \<Rightarrow> element_at themes 0));
          detected = (case topPost of
                        None \<Rightarrow> None
                      | Some p \<Rightarrow>
                          (case topics_detected p of
                             None \<Rightarrow> None
                           | Some ts \<Rightarrow> element_at ts 0));
          topic = (if truthy theme then show_undefined theme
                   else or_else detected ''your recent insights'')
      in ''Hi '' @ firstName contact @ '',\<newline>\<newline>''
         @ ''Really appreciated your recent post on '' @ topic
         @ '' - especially your point about [specific insight]. That's exactly what we're seeing across the market right now.\<newline>\<newline>''
         @ ''Would love to hear more about your experience with this. We've compiled some data from [X] companies on how they're approaching it that might be interesting to compare notes on.\<newline>\<newline>''
         @ ''Open to a quick call?\<newline>\<newline>''
         @ ''Best,\<newline>[Your name]'')"

definition generateTechnicalOutreach ::
  "contact \<Rightarrow> wedge \<Rightarrow> profile option \<Rightarrow> post list \<Rightarrow> string" where
  "generateTechnicalOutreach contact w profile posts =
     ''Hi '' @ firstName contact @ '',\<newline>\<newline>''
     @ ''Noticed your work in ''
     @ or_else (case githubLanguages (details w) of
                  None \<Rightarrow> None | Some languages \<Rightarrow> element_at languages 0)
         ''software development''
     @ '' - impressive background.\<newline>\<newline>''
     @ ''Curious how you typically evaluate technical solutions. We've built [product] specifically for technical buyers like you who care about [API quality/architecture/documentation].\<newline>\<newline>''
     @ ''Happy to do a technical deep-dive if you're interested. Can share our API docs and architecture diagrams upfront.\<newline>\<newline>''
     @ ''Best,\<newline>[Your name]''"

definition generateGeneralOutreach ::
  "contact \<Rightarrow> wedge \<Rightarrow> profile option \<Rightarrow> post list \<Rightarrow> string" where
  "generateGeneralOutreach contact w profile posts =
     ''Hi '' @ firstName contact @ '',\<newline>\<newline>''
     @ ''I've been researching '' @ show_null (contact.current_company contact)
     @ '' and your work in '' @ or_else (current_title contact) ''your role'' @ ''.\<newline>\<newline>''
     @ ''We've helped several companies in similar situations with [relevant challenge]. Would love to share what's worked and see if it might be relevant for you.\<newline>\<newline>''
     @ ''Open to a quick 15-minute call?\<newline>\<newline>''
     @ ''Best,\<newline>[Your name]''"

definition generateOutreach ::
  "contact \<Rightarrow> wedge \<Rightarrow> profile option \<Rightarrow> post list \<Rightarrow> string" where
  "generateOutreach contact primary linkedinProfile linkedinPosts =
     (let templateFn =
            (if type primary = linkedin_pain_point then generatePainPointOutreach
             else if type primary = linkedin_buying_signal then generateBuyingSignalOutreach
             else if string_includes (type_name (type primary)) ''job_change''
             then generateJobChangeOutreach
             else if type primary = linkedin_thought_leadership
             then generateThoughtLeadershipOutreach
             else if type primary = technical_buyer then generateTechnicalOutreach
             else generateGeneralOutreach)
      in templateFn contact primary linkedinProfile linkedinPosts)"

subsection \<open>generatePlaybook\<close>

text \<open>The outcome of every query that one run of \<^verbatim>\<open>generatePlaybook\<close> awaits: its own five
  reads, the read inside \<^verbatim>\<open>signalScorer.getTopSignals\<close>, the four reads inside
  \<^verbatim>\<open>wedgeDetector.detectWedges\<close>, and the final insert.\<close>

record environment =
  getContactById :: "contact option fetch"
  getProfile :: "profile option fetch"
  getRecentPosts :: "post list fetch"
  getActivity :: "github option fetch"
  getEngagements :: "speaking_engagement list fetch"
  scorer_getSignalsByContact :: "signal list fetch"
  detector_getProfile :: "profile option fetch"
  detector_getRecentPosts :: "post list fetch"
  detector_getSignalsByContact :: "signal list fetch"
  detector_getActivity :: "github option fetch"
  savePlaybook :: "unit fetch"

text \<open>The object literal of the playbook; \<^verbatim>\<open>buildLinkedInContext\<close> is the one call in it
  that can throw.\<close>

definition buildPlaybook ::
  "contact \<Rightarrow> profile option \<Rightarrow> post list \<Rightarrow> github option \<Rightarrow> speaking_engagement list
   \<Rightarrow> scored_signal list \<Rightarrow> detection \<Rightarrow> wedge \<Rightarrow> error + playbook" where
  "buildPlaybook contact linkedinProfile linkedinPosts githubActivity speaking signals detected primary =
     (case buildLinkedInContext linkedinProfile linkedinPosts primary of
        Inl err \<Rightarrow> Inl err
      | Inr linkedinContext \<Rightarrow>
          Inr \<lparr>primary_wedge = description primary,
               wedge_score = score primary,
               linkedin_context = linkedinContext,
               supporting_evidence = buildSupportingEvidence signals detected,
               personalization_hooks =
                 buildPersonalizationHooks contact linkedinProfile githubActivity speaking,
               timing_rationale = buildTimingRationale primary linkedinProfile signals,
               recommended_channels =
                 recommendChannels linkedinProfile (Some linkedinPosts) githubActivity,
               sample_outreach = generateOutreach contact primary linkedinProfile linkedinPosts,
               competitive_context = buildCompetitiveContext signals,
               conversation_starters = conversationStarters primary,
               full_strategy_json =
                 \<lparr>strategy_contact = contact,
                  strategy_primaryWedge = primary,
                  allWedges = wedges detected,
                  topSignals = signals,
                  linkedinActivity_profile = linkedinProfile,
                  linkedinActivity_recentPosts = slice linkedinPosts 0 3,
                  strategy_githubActivity = githubActivity,
                  speakingEngagements = slice speaking 0 3\<rparr>\<rparr>)"

text \<open>The body of the \<^verbatim>\<open>try\<close> block: \<open>Inl\<close> is an exception reaching the \<^verbatim>\<open>catch\<close>. When
  several of the five reads of the \<^verbatim>\<open>Promise.all\<close> reject, the one reported is taken to be
  the first in the order of the array. The second component is the table
  \<^verbatim>\<open>gtm_playbooks\<close> after the run.\<close>

definition generatePlaybookBody ::
  "int \<Rightarrow> environment \<Rightarrow> playbook list \<Rightarrow> error + (result \<times> playbook list)" where
  "generatePlaybookBody now env saved =
     (let signals = getTopSignals signalScorer (scorer_getSignalsByContact env) 5;
          detected = detectWedges now (detector_getProfile env) (detector_getRecentPosts env)
                       (detector_getSignalsByContact env) (detector_getActivity env)
      in case getContactById env of
           Inl err \<Rightarrow> Inl err
         | Inr contact \<Rightarrow>
        (case getProfile env of
           Inl err \<Rightarrow> Inl err
         | Inr linkedinProfile \<Rightarrow>
        (case getRecentPosts env of
           Inl err \<Rightarrow> Inl err
         | Inr linkedinPosts \<Rightarrow>
        (case getActivity env of
           Inl err \<Rightarrow> Inl err
         | Inr githubActivity \<Rightarrow>
        (case getEngagements env of
           Inl err \<Rightarrow> Inl err
         | Inr speaking \<Rightarrow>
        (case contact of
           None \<Rightarrow> Inl (Error ''Contact not found'')
         | Some c \<Rightarrow>
        (case primaryWedge detected of
           None \<Rightarrow> Inr (Failure ''Insufficient intelligence to generate playbook'', saved)
         | Some primary \<Rightarrow>
        (case buildPlaybook c linkedinProfile linkedinPosts githubActivity speaking signals
                detected primary of
           Inl err \<Rightarrow> Inl err
         | Inr playbook \<Rightarrow>
        (case savePlaybook env of
           Inl err \<Rightarrow> Inl err
         | Inr done \<Rightarrow> Inr (Success playbook, saved @ [playbook]))))))))))"

definition generatePlaybook ::
  "int \<Rightarrow> environment \<Rightarrow> playbook list \<Rightarrow> result \<times> playbook list" where
  "generatePlaybook now env saved =
     (case generatePlaybookBody now env saved of
        Inl err \<Rightarrow> (Failure (message err), saved)
      | Inr outcome \<Rightarrow> outcome)"

section \<open>The claims' vocabulary\<close>

text \<open>The definitions of this section follow the words of the specification; the theorems
  below compare them with the functions embedded from the source.\<close>

text \<open>The three LinkedIn-origin source types.\<close>

definition linkedin_origin :: "string \<Rightarrow> bool" where
  "linkedin_origin t =
     (t \<in> {''linkedin_activity'', ''linkedin_content'', ''linkedin_profile_change''})"

text \<open>The relevance of a signal after the boost of 0.3, clamped to 1.0.\<close>

definition spec_relevance :: "signal \<Rightarrow> real" where
  "spec_relevance s =
     (if linkedin_origin (signal_type s) then min (relevance_score s + 0.3) 1.0
      else relevance_score s)"

definition spec_composite :: "signal \<Rightarrow> real" where
  "spec_composite s = 0.4 * spec_relevance s + 0.3 * urgency_score s + 0.3 * wedge_potential s"

text \<open>An output entry \<open>b\<close> is the entry for the stored signal \<open>s\<close>: every stored field other
  than the relevance is carried over.\<close>

definition entry_for :: "scored_signal \<Rightarrow> signal \<Rightarrow> bool" where
  "entry_for b s =
     (signal_type b = signal_type s \<and> signal_category b = signal_category s
      \<and> signal.description b = signal.description s \<and> urgency_score b = urgency_score s
      \<and> wedge_potential b = wedge_potential s \<and> raw_data b = raw_data s)"

text \<open>The stored fields of a signal that the scorer carries over unchanged.\<close>

definition stored_fields ::
  "'a signal_scheme \<Rightarrow> string \<times> string \<times> string \<times> real \<times> real \<times> raw_data option" where
  "stored_fields s =
     (signal_type s, signal_category s, signal.description s, urgency_score s, wedge_potential s,
      raw_data s)"

text \<open>What the claims say of an output entry: the stored fields with the relevance and the
  composite score of the specification.\<close>

definition spec_entry ::
  "signal \<Rightarrow> (string \<times> string \<times> string \<times> real \<times> real \<times> raw_data option) \<times> real \<times> real" where
  "spec_entry s = (stored_fields s, spec_relevance s, spec_composite s)"

definition entry_view ::
  "scored_signal \<Rightarrow> (string \<times> string \<times> string \<times> real \<times> real \<times> raw_data option) \<times> real \<times> real" where
  "entry_view b = (stored_fields b, relevance_score b, composite_score b)"

text \<open>The signals that pass the threshold \<open>m\<close>, in descending order of composite score.\<close>

definition spec_prioritized :: "real \<Rightarrow> signal list \<Rightarrow> signal list" where
  "spec_prioritized m signals =
     sort_key (\<lambda>s. - spec_composite s) (filter (\<lambda>s. m \<le> spec_relevance s) signals)"

definition day_ms :: int where
  "day_ms = 86400000"

text \<open>The recency bonus of a pain-point post, from its age in milliseconds.\<close>

definition spec_recency_bonus :: "int \<Rightarrow> real" where
  "spec_recency_bonus age =
     (if age < 7 * day_ms then 0.15 else if age < 14 * day_ms then 0.10 else 0.05)"

text \<open>The buying-intent phrase: the first keyword of the table that occurs in the
  lower-cased content decides, \<open>solutions\<close> when none does.\<close>

definition buying_intent_table :: "(string \<times> string) list" where
  "buying_intent_table =
     [(''recommend'', ''recommendations''),
      (''evaluat'', ''solutions to evaluate''),
      (''looking for'', ''a solution''),
      (''anyone use'', ''tool recommendations'')]"

definition spec_buying_intent :: "string \<Rightarrow> string" where
  "spec_buying_intent content =
     (case find (\<lambda>entry. sublist (fst entry) (toLowerCase content)) buying_intent_table of
        None \<Rightarrow> ''solutions''
      | Some entry \<Rightarrow> snd entry)"

definition wedge_scores :: "real set" where
  "wedge_scores = {0.70, 0.75, 0.80, 0.85, 0.90, 0.98, 1.00, 1.05, 1.10}"

text \<open>The average engagement across the fetched posts, an absent count taken as 0, and the
  posts whose engagement is strictly greater than twice that average.\<close>

definition spec_average :: "post list \<Rightarrow> real" where
  "spec_average posts =
     real_of_int (sum_list (map (\<lambda>p. or_zero (engagement_count p)) posts)) / real (length posts)"

definition qualifies :: "post list \<Rightarrow> post \<Rightarrow> bool" where
  "qualifies posts p = (real_of_int (or_zero (engagement_count p)) > 2 * spec_average posts)"

text \<open>The rules of the detector run to completion on the fetched posts: every post flagged
  for pain points or for buying signals has content and key themes, and the first
  high-engagement post, if there is one, has key themes and topics.\<close>

definition renders :: "post \<Rightarrow> bool" where
  "renders p = (post_content p \<noteq> None \<and> key_themes p \<noteq> None)"

definition rules_complete :: "post list \<Rightarrow> bool" where
  "rules_complete posts =
     (list_all renders (filter mentions_pain_points posts)
      \<and> list_all renders (filter mentions_buying_signals posts)
      \<and> (case find (qualifies posts) posts of
            None \<Rightarrow> True
          | Some p \<Rightarrow> key_themes p \<noteq> None \<and> topics_detected p \<noteq> None))"

text \<open>The wedges that the six rules return, a rule that throws returning none.\<close>

fun returned :: "error + wedge list \<Rightarrow> wedge list" where
  "returned (Inl err) = []"
| "returned (Inr ws) = ws"

definition emitted_wedges ::
  "int \<Rightarrow> profile option \<Rightarrow> post list \<Rightarrow> signal list \<Rightarrow> github option \<Rightarrow> wedge list" where
  "emitted_wedges now linkedinProfile linkedinPosts signals githubActivity =
     returned (detectPainPointWedges now linkedinPosts)
     @ returned (detectBuyingSignalWedges now linkedinPosts)
     @ detectJobChangeWedges linkedinProfile signals
     @ returned (detectThoughtLeadershipWedges now linkedinPosts)
     @ detectTechnicalWedges linkedinPosts githubActivity
     @ detectInitiativeWedges signals"

text \<open>The channel recommendation in the words of the specification, as a mapping from
  channel names; the GitHub activity score is \<open>None\<close> when there is no GitHub activity or no
  score.\<close>

definition spec_channels :: "nat \<Rightarrow> real option \<Rightarrow> (string \<rightharpoonup> real)" where
  "spec_channels postCount activityScore =
     (let baseline = [''linkedin_dm'' \<mapsto> 0.5, ''email'' \<mapsto> 0.7, ''phone'' \<mapsto> 0.3];
          afterPosts =
            (if postCount \<ge> 5 then baseline(''linkedin_dm'' \<mapsto> 0.95, ''email'' \<mapsto> 0.6)
             else baseline);
          afterEmail = afterPosts(''email'' \<mapsto> 0.8)
      in if (case activityScore of None \<Rightarrow> False | Some x \<Rightarrow> x > 0.6)
         then afterEmail(''phone'' \<mapsto> 0.2, ''email'' \<mapsto> 0.9)
         else afterEmail)"

definition channels_mapping :: "channels \<Rightarrow> (string \<rightharpoonup> real)" where
  "channels_mapping c =
     [''linkedin_dm'' \<mapsto> linkedin_dm c, ''email'' \<mapsto> email c, ''phone'' \<mapsto> phone c]"

definition github_score :: "github option \<Rightarrow> real option" where
  "github_score githubActivity =
     (case githubActivity of None \<Rightarrow> None | Some g \<Rightarrow> activity_score g)"

definition post_count :: "post list option \<Rightarrow> nat" where
  "post_count linkedinPosts = (case linkedinPosts of None \<Rightarrow> 0 | Some posts \<Rightarrow> length posts)"

text \<open>The errors of the five reads that \<^verbatim>\<open>generatePlaybook\<close> issues itself, those of the four
  reads inside the wedge detector, whether the contact row exists, and the detection that a
  run of \<^verbatim>\<open>generatePlaybook\<close> obtains.\<close>

fun is_success :: "result \<Rightarrow> bool" where
  "is_success (Success p) = True"
| "is_success (Failure msg) = False"

fun is_failure :: "result \<Rightarrow> bool" where
  "is_failure (Success p) = False"
| "is_failure (Failure msg) = True"

fun failure :: "'a fetch \<Rightarrow> error list" where
  "failure (Inl err) = [err]"
| "failure (Inr v) = []"

definition own_failures :: "environment \<Rightarrow> error list" where
  "own_failures env =
     failure (getContactById env) @ failure (getProfile env) @ failure (getRecentPosts env)
     @ failure (getActivity env) @ failure (getEngagements env)"

definition detector_failures :: "environment \<Rightarrow> error list" where
  "detector_failures env =
     failure (detector_getProfile env) @ failure (detector_getRecentPosts env)
     @ failure (detector_getSignalsByContact env) @ failure (detector_getActivity env)"

definition contact_found :: "environment \<Rightarrow> bool" where
  "contact_found env = (case getContactById env of Inr (Some c) \<Rightarrow> True | _ \<Rightarrow> False)"

definition run_detection :: "int \<Rightarrow> environment \<Rightarrow> detection" where
  "run_detection now env =
     detectWedges now (detector_getProfile env) (detector_getRecentPosts env)
       (detector_getSignalsByContact env) (detector_getActivity env)"

definition insufficient :: string where
  "insufficient = ''Insufficient intelligence to generate playbook''"

section \<open>Example data\<close>

text \<open>A LinkedIn signal, a post flagged for pain points and buying signals, a flagged post
  without content, a profile four months into a role, five posts of which two have a high
  engagement, and environments in which every read succeeds, no intelligence is stored, or
  one read fails.\<close>

definition example_signal :: signal where
  "example_signal =
     \<lparr>signal_type = ''linkedin_content'', signal_category = ''buying_signal'',
      description = ''Asked for forecasting tools'', relevance_score = 0.8,
      urgency_score = 0.5, wedge_potential = 0.5, raw_data = None\<rparr>"

definition example_pain_post :: post where
  "example_pain_post =
     \<lparr>post_url = Some ''https://linkedin.com/posts/1'', post_date = Some (8 * 86400000),
      post_content = Some ''Forecasting is broken. Anyone Recommend a tool?'',
      engagement_count = Some 45, topics_detected = Some [''pipeline''],
      key_themes = Some [''forecasting''], mentions_pain_points = True,
      mentions_buying_signals = True\<rparr>"


definition example_profile :: profile where
  "example_profile =
     \<lparr>influence_score = None, connections_count = None, followers_count = None,
      current_position_tenure_months = Some 4, previous_companies = None, location = None,
      current_company = None\<rparr>"

definition engaged_post :: "string \<Rightarrow> int \<Rightarrow> post" where
  "engaged_post u n =
     \<lparr>post_url = Some u, post_date = Some (8 * 86400000),
      post_content = Some ''Quarterly planning notes'', engagement_count = Some n,
      topics_detected = Some [''planning''], key_themes = Some [''planning''],
      mentions_pain_points = False, mentions_buying_signals = False\<rparr>"

definition example_engaged_posts :: "post list" where
  "example_engaged_posts =
     [engaged_post ''a'' 10, engaged_post ''b'' 10, engaged_post ''c'' 0,
      engaged_post ''d'' 0, engaged_post ''e'' 0]"

definition example_contact :: contact where
  "example_contact =
     \<lparr>full_name = ''Ada Lovelace'', current_company = Some ''Acme'',
      current_title = Some ''VP Sales''\<rparr>"

definition example_environment :: environment where
  "example_environment =
     \<lparr>getContactById = Inr (Some example_contact),
      getProfile = Inr (Some example_profile),
      getRecentPosts = Inr [example_pain_post],
      getActivity = Inr None,
      getEngagements = Inr [],
      scorer_getSignalsByContact = Inr [example_signal],
      detector_getProfile = Inr (Some example_profile),
      detector_getRecentPosts = Inr [example_pain_post],
      detector_getSignalsByContact = Inr [example_signal],
      detector_getActivity = Inr None,
      savePlaybook = Inr ()\<rparr>"

definition no_intelligence_environment :: environment where
  "no_intelligence_environment =
     example_environment
       \<lparr>getProfile := Inr None, getRecentPosts := Inr [],
        detector_getProfile := Inr None, detector_getRecentPosts := Inr []\<rparr>"

definition scorer_down_environment :: environment where
  "scorer_down_environment =
     example_environment\<lparr>scorer_getSignalsByContact := Inl (Error ''connection refused'')\<rparr>"

definition profile_down_environment :: environment where
  "profile_down_environment =
     example_environment\<lparr>getProfile := Inl (Error ''connection refused'')\<rparr>"

definition save_down_environment :: environment where
  "save_down_environment =
     example_environment\<lparr>savePlaybook := Inl (Error ''connection refused'')\<rparr>"

definition detector_down_environment :: environment where
  "detector_down_environment =
     example_environment\<lparr>detector_getRecentPosts := Inl (Error ''connection refused'')\<rparr>"

section \<open>Properties of the signal scorer\<close>

lemma slice_0_nat: "slice xs 0 (int n) = take n xs"
  by (simp add: slice_def relativeIndex_def Let_def min_def)

lemma scoreAndPrioritizeSignals_Inr:
  "scoreAndPrioritizeSignals this (Inr signals) =
     sort_key (\<lambda>s. - composite_score s)
       (filter (\<lambda>s. relevance_score s \<ge> minRelevance this) (map (boostSignal this) signals))"
  by (cases signals) (simp_all add: scoreAndPrioritizeSignals_def)

lemma boostSignal_default:
  "entry_for (boostSignal (signalScorer\<lparr>minRelevance := m\<rparr>) s) s
   \<and> relevance_score (boostSignal (signalScorer\<lparr>minRelevance := m\<rparr>) s) = spec_relevance s
   \<and> composite_score (boostSignal (signalScorer\<lparr>minRelevance := m\<rparr>) s) = spec_composite s
   \<and> entry_view (boostSignal (signalScorer\<lparr>minRelevance := m\<rparr>) s) = spec_entry s"
  by (simp add: boostSignal_def isLinkedInSignal_def signalScorer_def Let_def entry_for_def
      spec_relevance_def spec_composite_def linkedin_origin_def calculateCompositeScore_def
      entry_view_def spec_entry_def stored_fields_def)

lemma boostSignal_spec:
  "entry_for (boostSignal signalScorer s) s
   \<and> relevance_score (boostSignal signalScorer s) = spec_relevance s
   \<and> composite_score (boostSignal signalScorer s) = spec_composite s"
  by (simp add: boostSignal_def isLinkedInSignal_def signalScorer_def Let_def entry_for_def
      spec_relevance_def spec_composite_def linkedin_origin_def calculateCompositeScore_def)

lemma set_scoreAndPrioritizeSignals:
  "set (scoreAndPrioritizeSignals this (Inr signals)) =
     {b \<in> boostSignal this ` set signals. minRelevance this \<le> relevance_score b}"
  by (auto simp: scoreAndPrioritizeSignals_Inr)

text \<open>
  \<^bold>\<open>Claim C1.\<close> Every entry of the scorer's output is the entry for a stored signal, with
  relevance \<open>min (relevance + 0.3) 1.0\<close> when the signal's type is one of the three
  LinkedIn-origin types and the stored relevance otherwise, and with composite score
  \<open>0.4 * relevance + 0.3 * urgency + 0.3 * wedgePotential\<close> on that relevance; and every
  stored signal that passes the threshold has such an entry.
\<close>

theorem scorer_boost_and_composite:
  "(\<forall>b \<in> set (scoreAndPrioritizeSignals signalScorer (Inr signals)).
      \<exists>s \<in> set signals. entry_for b s \<and> relevance_score b = spec_relevance s
        \<and> composite_score b = spec_composite s)
   \<and> (\<forall>s \<in> set signals. 0.5 \<le> spec_relevance s \<longrightarrow>
         (\<exists>b \<in> set (scoreAndPrioritizeSignals signalScorer (Inr signals)).
            entry_for b s \<and> relevance_score b = spec_relevance s
            \<and> composite_score b = spec_composite s))"
proof (intro conjI ballI impI)
  fix b assume "b \<in> set (scoreAndPrioritizeSignals signalScorer (Inr signals))"
  then obtain s where "s \<in> set signals" "b = boostSignal signalScorer s"
    by (auto simp: set_scoreAndPrioritizeSignals)
  then show "\<exists>s \<in> set signals. entry_for b s \<and> relevance_score b = spec_relevance s
        \<and> composite_score b = spec_composite s"
    using boostSignal_spec by blast
next
  fix s assume s: "s \<in> set signals" and r: "0.5 \<le> spec_relevance s"
  have "minRelevance signalScorer = 0.5" by (simp add: signalScorer_def)
  with s r have
    "boostSignal signalScorer s \<in> set (scoreAndPrioritizeSignals signalScorer (Inr signals))"
    by (simp add: set_scoreAndPrioritizeSignals boostSignal_spec)
  then show "\<exists>b \<in> set (scoreAndPrioritizeSignals signalScorer (Inr signals)).
            entry_for b s \<and> relevance_score b = spec_relevance s
            \<and> composite_score b = spec_composite s"
    using boostSignal_spec by blast
qed

theorem scorer_boost_and_composite_witness:
  "example_signal \<in> set [example_signal] \<and> 0.5 \<le> spec_relevance example_signal
   \<and> (\<exists>b \<in> set (scoreAndPrioritizeSignals signalScorer (Inr [example_signal])).
         entry_for b example_signal \<and> relevance_score b = 1 \<and> composite_score b = 0.7)"
proof -
  have r: "spec_relevance example_signal = 1"
    by (simp add: spec_relevance_def linkedin_origin_def example_signal_def)
  have c: "spec_composite example_signal = 0.7"
    by (simp add: spec_composite_def r) (simp add: example_signal_def)
  have "\<forall>s \<in> set [example_signal]. 0.5 \<le> spec_relevance s \<longrightarrow>
         (\<exists>b \<in> set (scoreAndPrioritizeSignals signalScorer (Inr [example_signal])).
            entry_for b s \<and> relevance_score b = spec_relevance s
            \<and> composite_score b = spec_composite s)"
    using scorer_boost_and_composite [of "[example_signal]"] by (rule conjunct2)
  then have "\<exists>b \<in> set (scoreAndPrioritizeSignals signalScorer (Inr [example_signal])).
            entry_for b example_signal \<and> relevance_score b = spec_relevance example_signal
            \<and> composite_score b = spec_composite example_signal"
    by (simp add: r)
  then show ?thesis
    unfolding r c by simp
qed

lemma insort_key_map:
  "insort_key f (g x) (map g ys) = map g (insort_key (\<lambda>y. f (g y)) x ys)"
  by (induction ys) simp_all

lemma sort_key_map:
  "sort_key f (map g xs) = map g (sort_key (\<lambda>y. f (g y)) xs)"
  by (induction xs) (simp_all add: insort_key_map)

lemma scorer_as_specified:
  "scoreAndPrioritizeSignals (signalScorer\<lparr>minRelevance := m\<rparr>) (Inr signals)
     = map (boostSignal (signalScorer\<lparr>minRelevance := m\<rparr>)) (spec_prioritized m signals)"
proof -
  have f: "filter (\<lambda>b. m \<le> relevance_score b)
             (map (boostSignal (signalScorer\<lparr>minRelevance := m\<rparr>)) signals)
        = map (boostSignal (signalScorer\<lparr>minRelevance := m\<rparr>))
            (filter (\<lambda>s. m \<le> spec_relevance s) signals)"
    by (simp add: filter_map o_def boostSignal_default)
  have "scoreAndPrioritizeSignals (signalScorer\<lparr>minRelevance := m\<rparr>) (Inr signals)
      = sort_key (\<lambda>b. - composite_score b)
          (filter (\<lambda>b. m \<le> relevance_score b)
             (map (boostSignal (signalScorer\<lparr>minRelevance := m\<rparr>)) signals))"
    by (simp add: scoreAndPrioritizeSignals_Inr)
  then show ?thesis
    unfolding f sort_key_map spec_prioritized_def by (simp add: boostSignal_default)
qed

lemma sorted_desc_sort_key:
  "sorted_wrt (\<lambda>a b. f a \<ge> f b) (sort_key (\<lambda>x. - f x) (xs :: 'a list))"
  for f :: "'a \<Rightarrow> real"
proof -
  have "sorted (map (\<lambda>x. - f x) (sort_key (\<lambda>x. - f x) xs))"
    by (rule sorted_sort_key)
  then show ?thesis
    by (simp add: sorted_map)
qed

text \<open>The boundary of the default threshold: of two signals that are not of LinkedIn origin,
  the one with relevance 0.50 is kept and the one with relevance 0.49 is dropped.\<close>

lemma threshold_boundary_example:
  "map relevance_score
     (scoreAndPrioritizeSignals signalScorer
        (Inr [example_signal\<lparr>signal_type := ''github_activity'', relevance_score := 0.49\<rparr>,
              example_signal\<lparr>signal_type := ''github_activity'', relevance_score := 0.50\<rparr>]))
     = [0.50]"
  by (simp add: scoreAndPrioritizeSignals_def boostSignal_def isLinkedInSignal_def
      signalScorer_def example_signal_def Let_def)

text \<open>
  \<^bold>\<open>Claim C8.\<close> With the minimum threshold \<open>m\<close>, the output of the scorer is, entry by
  entry, the list of the stored signals whose relevance after the boost of 0.3, clamped to
  1.0, is at least \<open>m\<close> (each as often as it is stored, the comparison inclusive), in
  descending order of the composite score \<open>0.4 * relevance + 0.3 * urgency + 0.3 *
  wedgePotential\<close> on the boosted relevance; each entry carries the stored fields, the boosted
  relevance and that composite score. \<open>getTopSignals\<close> with count \<open>n\<close> is the first \<open>n\<close>
  entries of that list. The default threshold is 0.5.
\<close>

theorem scorer_threshold_sort_top:
  "map entry_view (scoreAndPrioritizeSignals (signalScorer\<lparr>minRelevance := m\<rparr>) (Inr signals))
     = map spec_entry (spec_prioritized m signals)
   \<and> mset (spec_prioritized m signals) = filter_mset (\<lambda>s. m \<le> spec_relevance s) (mset signals)
   \<and> sorted_wrt (\<lambda>s t. spec_composite s \<ge> spec_composite t) (spec_prioritized m signals)
   \<and> map entry_view (getTopSignals (signalScorer\<lparr>minRelevance := m\<rparr>) (Inr signals) (int n))
       = map spec_entry (take n (spec_prioritized m signals))
   \<and> signalScorer\<lparr>minRelevance := 0.5\<rparr> = signalScorer"
proof -
  have e: "map entry_view (map (boostSignal (signalScorer\<lparr>minRelevance := m\<rparr>)) xs)
             = map spec_entry xs" for xs
    by (simp add: boostSignal_default)
  have 1: "map entry_view (scoreAndPrioritizeSignals (signalScorer\<lparr>minRelevance := m\<rparr>) (Inr signals))
     = map spec_entry (spec_prioritized m signals)"
    using scorer_as_specified [of m signals] e by simp
  have 2: "mset (spec_prioritized m signals) = filter_mset (\<lambda>s. m \<le> spec_relevance s) (mset signals)"
    by (simp add: spec_prioritized_def)
  have 3: "sorted_wrt (\<lambda>s t. spec_composite s \<ge> spec_composite t) (spec_prioritized m signals)"
    unfolding spec_prioritized_def by (rule sorted_desc_sort_key)
  have 4: "map entry_view (getTopSignals (signalScorer\<lparr>minRelevance := m\<rparr>) (Inr signals) (int n))
       = map spec_entry (take n (spec_prioritized m signals))"
    unfolding getTopSignals_def slice_0_nat take_map [symmetric] 1 ..
  have 5: "signalScorer\<lparr>minRelevance := 0.5\<rparr> = signalScorer"
    by (simp add: signalScorer_def)
  from 1 2 3 4 5 show ?thesis by blast
qed

section \<open>Properties of the wedge detector\<close>

lemma int_div_less_iff:
  assumes "0 < (b::int)" shows "a div b < k \<longleftrightarrow> a < k * b"
proof -
  have "a div b < k \<longleftrightarrow> \<lfloor>real_of_int a / real_of_int b\<rfloor> < k"
    by (simp add: floor_divide_of_int_eq)
  also have "\<dots> \<longleftrightarrow> real_of_int a / real_of_int b < real_of_int k"
    by (rule floor_less_iff)
  also have "\<dots> \<longleftrightarrow> real_of_int a < real_of_int k * real_of_int b"
    using assms by (simp add: divide_less_eq)
  also have "\<dots> \<longleftrightarrow> a < k * b"
    by (metis of_int_less_iff of_int_mult)
  finally show ?thesis .
qed

lemma getDaysSince_less:
  "getDaysSince now posted < k \<longleftrightarrow> now - or_zero posted < k * day_ms"
  unfolding getDaysSince_def day_ms_def
  using int_div_less_iff[of 86400000 "now - or_zero posted" k] by simp

lemma extractBuyingIntent_spec: "extractBuyingIntent content = spec_buying_intent content"
  by (simp add: extractBuyingIntent_def spec_buying_intent_def buying_intent_table_def
      string_includes_def Let_def)

subsection \<open>The loop over the flagged posts\<close>

lemma forEach_push_Inr_iff:
  fixes f :: "'a \<Rightarrow> error + 'b"
  shows "forEach_push f xs = Inr ys \<longleftrightarrow> map f xs = map Inr ys"
proof (induction xs arbitrary: ys)
  case Nil
  show ?case by auto
next
  case (Cons x xs)
  show ?case
  proof (cases "f x")
    case (Inl err)
    then show ?thesis by (auto simp: map_eq_Cons_conv)
  next
    case (Inr y)
    show ?thesis
    proof (cases "forEach_push f xs")
      case (Inl err)
      with Cons.IH have "\<And>zs. map f xs \<noteq> map Inr zs" by auto
      with Inl Inr show ?thesis by (auto simp: map_eq_Cons_conv Cons_eq_map_conv)
    next
      case r: (Inr zs)
      from Cons.IH [of zs] r have m: "map f xs = map Inr zs" by simp
      have i: "(map Inr zs :: (error + 'b) list) = map Inr us \<longleftrightarrow> zs = us" for us
        by (simp add: inj_map_eq_map)
      from r Inr m i show ?thesis
        by (auto simp: Cons_eq_map_conv)
    qed
  qed
qed

lemma forEach_push_completes:
  "(\<exists>ys. forEach_push f xs = Inr ys) \<longleftrightarrow> list_all (\<lambda>x. \<not> isl (f x)) xs"
proof (induction xs)
  case Nil
  show ?case by simp
next
  case (Cons x xs)
  then show ?case
    by (cases "f x"; cases "forEach_push f xs") auto
qed

lemma forEach_push_set:
  "forEach_push f xs = Inr ys \<Longrightarrow> y \<in> set ys \<Longrightarrow> \<exists>x \<in> set xs. f x = Inr y"
proof -
  assume a: "forEach_push f xs = Inr ys" and y: "y \<in> set ys"
  from a have m: "map f xs = map Inr ys" by (simp add: forEach_push_Inr_iff)
  from y have "Inr y \<in> set (map Inr ys)" by simp
  with m have "Inr y \<in> set (map f xs)" by simp
  then show ?thesis by auto
qed

subsection \<open>The wedge of one post\<close>

lemma painPointWedge_renders: "\<not> isl (painPointWedge now p) \<longleftrightarrow> renders p"
  by (auto simp: painPointWedge_def generatePainPointHook_def renders_def Let_def
      split: option.splits)

lemma buyingSignalWedge_renders: "\<not> isl (buyingSignalWedge now p) \<longleftrightarrow> renders p"
  by (auto simp: buyingSignalWedge_def renders_def Let_def split: option.splits)

lemma thoughtLeadershipWedge_renders:
  "\<not> isl (thoughtLeadershipWedge now avg p)
     \<longleftrightarrow> key_themes p \<noteq> None \<and> topics_detected p \<noteq> None"
  by (auto simp: thoughtLeadershipWedge_def Let_def split: option.splits)

lemma painPointWedge_spec:
  assumes "painPointWedge now p = Inr w"
  shows "type w = linkedin_pain_point
   \<and> score w = 0.95 + spec_recency_bonus (now - or_zero (post_date p))
   \<and> score w =
       (if now - or_zero (post_date p) < 7 * day_ms then 1.10
        else if now - or_zero (post_date p) < 14 * day_ms then 1.05 else 1.00)
   \<and> timingRationale w =
       ''Posted '' @ show_int (getDaysSince now (post_date p)) @ '' days ago with ''
       @ show_nullable_int (engagement_count p)
       @ '' engagements - indicates active, shared pain point''"
proof -
  from assms obtain content themes hook where
    w: "w = \<lparr>type = linkedin_pain_point,
            score = 0.95 + (if getDaysSince now (post_date p) < 7 then 0.15
                            else if getDaysSince now (post_date p) < 14 then 0.10 else 0.05),
            description = ''Recent LinkedIn post discussing pain points'',
            details = PainPointDetails (post_url p) (post_date p) (getDaysSince now (post_date p))
                        themes (engagement_count p) (take 200 content),
            openingHook = hook,
            timingRationale =
              ''Posted '' @ show_int (getDaysSince now (post_date p)) @ '' days ago with ''
              @ show_nullable_int (engagement_count p)
              @ '' engagements - indicates active, shared pain point'',
            conversationStarters =
              [''Saw your recent post about '' @ or_else (element_at themes 0) ''challenges'',
               ''The '' @ show_nullable_int (engagement_count p)
                 @ '' responses to your post show this is a common issue'',
               ''Your point about '' @ or_else (element_at themes 0) ''the problem''
                 @ '' really resonated'']\<rparr>"
    by (auto simp: painPointWedge_def Let_def split: option.splits sum.splits)
  show ?thesis
    unfolding w
    using getDaysSince_less[of now "post_date p" 7] getDaysSince_less[of now "post_date p" 14]
    by (simp add: spec_recency_bonus_def)
qed

lemma buyingSignalWedge_spec:
  assumes "buyingSignalWedge now p = Inr w"
  shows "type w = linkedin_buying_signal
   \<and> score w = 0.98
   \<and> (\<exists>content. post_content p = Some content
        \<and> openingHook w =
            ''Saw you're looking for '' @ spec_buying_intent content
            @ '' - happy to share what's worked for similar companies''
        \<and> sublist (spec_buying_intent content) (openingHook w))"
proof -
  from assms obtain content themes where c: "post_content p = Some content"
    and w: "w = \<lparr>type = linkedin_buying_signal,
                  score = 0.98,
                  description = ''Active buying signal detected in LinkedIn post'',
                  details = BuyingSignalDetails (post_url p) (post_date p)
                              (getDaysSince now (post_date p)) (take 200 content),
                  openingHook =
                    ''Saw you're looking for '' @ extractBuyingIntent content
                    @ '' - happy to share what's worked for similar companies'',
                  timingRationale =
                    ''Active evaluation happening now - posted ''
                    @ show_int (getDaysSince now (post_date p)) @ '' days ago'',
                  conversationStarters =
                    [''Saw your question about solutions for ''
                       @ show_undefined (element_at themes 0),
                     ''Happy to share how similar companies approached this'',
                     ''Would love to share what we've learned from others in your situation'']\<rparr>"
    by (auto simp: buyingSignalWedge_def Let_def split: option.splits)
  have s: "sublist (spec_buying_intent content)
          (''Saw you're looking for '' @ spec_buying_intent content
           @ '' - happy to share what's worked for similar companies'')"
    unfolding sublist_def by blast
  show ?thesis
    unfolding w using c s by (simp add: extractBuyingIntent_spec)
qed

lemma thoughtLeadershipWedge_spec:
  assumes "thoughtLeadershipWedge now avg p = Inr w"
  shows "type w = linkedin_thought_leadership
   \<and> score w = 0.85
   \<and> timingRationale w =
       ''High engagement ('' @ show_nullable_int (engagement_count p) @ '' vs ''
       @ show_int (round avg) @ '' average) shows this topic resonates with their audience''"
  using assms
  by (auto simp: thoughtLeadershipWedge_def Let_def split: option.splits)

subsection \<open>The types and scores that each rule emits\<close>

lemma types_painPoint:
  "detectPainPointWedges now posts = Inr ws \<Longrightarrow> w \<in> set ws \<Longrightarrow> type w = linkedin_pain_point"
  unfolding detectPainPointWedges_def Let_def
  using forEach_push_set painPointWedge_spec by fastforce

lemma types_buying:
  "detectBuyingSignalWedges now posts = Inr ws \<Longrightarrow> w \<in> set ws \<Longrightarrow> type w = linkedin_buying_signal"
  unfolding detectBuyingSignalWedges_def Let_def
  using forEach_push_set buyingSignalWedge_spec by fastforce

lemma types_jobChange:
  "w \<in> set (detectJobChangeWedges profile signals) \<Longrightarrow>
     type w = linkedin_job_change_recent \<or> type w = linkedin_job_change_optimal"
  by (auto simp: detectJobChangeWedges_def jobChangeRecentWedge_def jobChangeOptimalWedge_def Let_def
      split: option.splits if_splits)

lemma activePoster_type: "type (activePosterWedge posts) = linkedin_active_poster"
  by (simp add: activePosterWedge_def Let_def)

lemma activePoster_score: "score (activePosterWedge posts) = 0.75"
  by (simp add: activePosterWedge_def Let_def)

lemma types_technical:
  "w \<in> set (detectTechnicalWedges posts githubActivity) \<Longrightarrow> type w = technical_buyer"
  by (auto simp: detectTechnicalWedges_def technicalWedge_def Let_def split: option.splits if_splits)

lemma types_initiative:
  "w \<in> set (detectInitiativeWedges signals) \<Longrightarrow> type w = company_initiative"
  by (auto simp: detectInitiativeWedges_def initiativeWedge_def Let_def split: list.splits)


lemma filter_none: "(\<And>x. x \<in> set xs \<Longrightarrow> \<not> P x) \<Longrightarrow> filter P xs = []"
  by (induction xs) auto

lemma no_painPoint_type:
  "detectPainPointWedges now posts = Inr ws \<Longrightarrow> t \<noteq> linkedin_pain_point \<Longrightarrow>
     filter (\<lambda>w. type w = t) ws = []"
  by (rule filter_none) (auto dest: types_painPoint)

lemma no_buying_type:
  "detectBuyingSignalWedges now posts = Inr ws \<Longrightarrow> t \<noteq> linkedin_buying_signal \<Longrightarrow>
     filter (\<lambda>w. type w = t) ws = []"
  by (rule filter_none) (auto dest: types_buying)

lemma no_jobChange_type:
  "t \<noteq> linkedin_job_change_recent \<Longrightarrow> t \<noteq> linkedin_job_change_optimal \<Longrightarrow>
     filter (\<lambda>w. type w = t) (detectJobChangeWedges profile signals) = []"
  by (rule filter_none) (auto dest: types_jobChange)

lemma no_technical_type:
  "t \<noteq> technical_buyer \<Longrightarrow> filter (\<lambda>w. type w = t) (detectTechnicalWedges posts githubActivity) = []"
  by (rule filter_none) (auto dest: types_technical)

lemma no_initiative_type:
  "t \<noteq> company_initiative \<Longrightarrow> filter (\<lambda>w. type w = t) (detectInitiativeWedges signals) = []"
  by (rule filter_none) (auto dest: types_initiative)

subsection \<open>When the detection completes\<close>

lemma foldl_add_sum_list:
  "foldl (\<lambda>sum p. sum + f p) a xs = a + sum_list (map f xs)" for a :: int
  by (induction xs arbitrary: a) simp_all

lemma averageEngagement_spec: "averageEngagement posts = spec_average posts"
  by (simp add: averageEngagement_def spec_average_def foldl_add_sum_list)

lemma highEngagementPosts_spec: "highEngagementPosts posts = filter (qualifies posts) posts"
  unfolding highEngagementPosts_def qualifies_def [abs_def] averageEngagement_spec
  by (simp add: mult.commute)

lemma case_filter_find:
  "(case filter P xs of [] \<Rightarrow> a | x # rest \<Rightarrow> f x) = (case find P xs of None \<Rightarrow> a | Some x \<Rightarrow> f x)"
  by (induction xs) simp_all

lemma detectThoughtLeadershipWedges_find:
  "detectThoughtLeadershipWedges now posts =
     (case find (qualifies posts) posts of
        None \<Rightarrow> Inr (if length posts \<ge> 10 then [activePosterWedge posts] else [])
      | Some p \<Rightarrow>
          (case thoughtLeadershipWedge now (spec_average posts) p of
             Inl err \<Rightarrow> Inl err
           | Inr w \<Rightarrow> Inr ([w] @ (if length posts \<ge> 10 then [activePosterWedge posts] else []))))"
proof (cases "posts = []")
  case True
  then show ?thesis by (simp add: detectThoughtLeadershipWedges_def)
next
  case False
  then have "detectThoughtLeadershipWedges now posts =
     (case filter (qualifies posts) posts of
        [] \<Rightarrow> Inr (if length posts \<ge> 10 then [activePosterWedge posts] else [])
      | p # rest \<Rightarrow>
          (case thoughtLeadershipWedge now (spec_average posts) p of
             Inl err \<Rightarrow> Inl err
           | Inr w \<Rightarrow> Inr ([w] @ (if length posts \<ge> 10 then [activePosterWedge posts] else []))))"
    by (simp add: detectThoughtLeadershipWedges_def Let_def highEngagementPosts_spec
        averageEngagement_spec)
  then show ?thesis by (simp only: case_filter_find)
qed

lemma detectPainPointWedges_completes:
  "(\<exists>ws. detectPainPointWedges now posts = Inr ws)
     \<longleftrightarrow> list_all renders (filter mentions_pain_points posts)"
  by (simp add: detectPainPointWedges_def forEach_push_completes painPointWedge_renders)

lemma detectBuyingSignalWedges_completes:
  "(\<exists>ws. detectBuyingSignalWedges now posts = Inr ws)
     \<longleftrightarrow> list_all renders (filter mentions_buying_signals posts)"
  by (simp add: detectBuyingSignalWedges_def forEach_push_completes buyingSignalWedge_renders)

lemma detectThoughtLeadershipWedges_completes:
  "(\<exists>ws. detectThoughtLeadershipWedges now posts = Inr ws)
     \<longleftrightarrow> (case find (qualifies posts) posts of
            None \<Rightarrow> True
          | Some p \<Rightarrow> key_themes p \<noteq> None \<and> topics_detected p \<noteq> None)"
proof (cases "find (qualifies posts) posts")
  case None
  then show ?thesis by (simp add: detectThoughtLeadershipWedges_find)
next
  case (Some p)
  show ?thesis
    using thoughtLeadershipWedge_renders [of now "spec_average posts" p]
    by (cases "thoughtLeadershipWedge now (spec_average posts) p")
       (simp_all add: detectThoughtLeadershipWedges_find Some)
qed

lemma collectWedges_Inr:
  "collectWedges now prof posts sigs gh = Inr ws \<longleftrightarrow>
     (\<exists>pp bs tl. detectPainPointWedges now posts = Inr pp
        \<and> detectBuyingSignalWedges now posts = Inr bs
        \<and> detectThoughtLeadershipWedges now posts = Inr tl
        \<and> ws = pp @ bs @ detectJobChangeWedges prof sigs @ tl
                @ detectTechnicalWedges posts gh @ detectInitiativeWedges sigs)"
  by (auto simp: collectWedges_def Let_def split: sum.splits)

lemma collectWedges_completes:
  "(\<exists>ws. collectWedges now prof posts sigs gh = Inr ws) \<longleftrightarrow> rules_complete posts"
proof -
  have "(\<exists>ws. collectWedges now prof posts sigs gh = Inr ws) \<longleftrightarrow>
          (\<exists>pp. detectPainPointWedges now posts = Inr pp)
          \<and> (\<exists>bs. detectBuyingSignalWedges now posts = Inr bs)
          \<and> (\<exists>tl. detectThoughtLeadershipWedges now posts = Inr tl)"
    unfolding collectWedges_Inr by blast
  then show ?thesis
    unfolding detectPainPointWedges_completes detectBuyingSignalWedges_completes
      detectThoughtLeadershipWedges_completes rules_complete_def .
qed

lemma collectWedges_emitted:
  "collectWedges now prof posts sigs gh = Inr ws \<Longrightarrow> ws = emitted_wedges now prof posts sigs gh"
  by (auto simp: collectWedges_Inr emitted_wedges_def)

lemma detectWedges_Inr:
  "collectWedges now prof posts sigs gh = Inr ws \<Longrightarrow>
     wedges (detectWedges now (Inr prof) (Inr posts) (Inr sigs) (Inr gh))
       = sort_key (\<lambda>w. - score w) ws"
  by (simp add: detectWedges_def Let_def)


lemma detectWedges_failure:
  "isl getProfile' \<or> isl getRecentPosts' \<or> isl getSignals' \<or> isl getActivity' \<Longrightarrow>
     detectWedges now getProfile' getRecentPosts' getSignals' getActivity' = emptyDetection"
  by (auto simp: detectWedges_def isl_def split: sum.splits)



lemma filter_thoughtLeadership_collect:
  assumes "collectWedges now prof posts sigs gh = Inr ws"
  shows "filter (\<lambda>w. type w = linkedin_thought_leadership) ws =
     (case find (qualifies posts) posts of
        None \<Rightarrow> []
      | Some p \<Rightarrow> returned (map_sum id (\<lambda>w. [w]) (thoughtLeadershipWedge now (spec_average posts) p)))"
proof -
  from assms obtain pp bs tl where pp: "detectPainPointWedges now posts = Inr pp"
    and bs: "detectBuyingSignalWedges now posts = Inr bs"
    and tl: "detectThoughtLeadershipWedges now posts = Inr tl"
    and ws: "ws = pp @ bs @ detectJobChangeWedges prof sigs @ tl
                @ detectTechnicalWedges posts gh @ detectInitiativeWedges sigs"
    by (auto simp: collectWedges_Inr)
  have "filter (\<lambda>w. type w = linkedin_thought_leadership) tl =
     (case find (qualifies posts) posts of
        None \<Rightarrow> []
      | Some p \<Rightarrow> returned (map_sum id (\<lambda>w. [w]) (thoughtLeadershipWedge now (spec_average posts) p)))"
    using tl thoughtLeadershipWedge_spec
    by (auto simp: detectThoughtLeadershipWedges_find activePoster_type
        split: option.splits sum.splits if_splits)
  then show ?thesis
    unfolding ws
    by (simp add: no_painPoint_type [OF pp] no_buying_type [OF bs] no_jobChange_type
        no_technical_type no_initiative_type)
qed




lemma example_rules_complete: "rules_complete [example_pain_post]"
  by (simp add: rules_complete_def renders_def qualifies_def spec_average_def
      example_pain_post_def)







subsection \<open>The scores of the rules\<close>

lemma score_painPoint:
  assumes "detectPainPointWedges now posts = Inr ws" and "w \<in> set ws"
  shows "score w \<in> {1.00, 1.05, 1.10} \<and>
     (1.0 < score w \<longrightarrow> (\<exists>p \<in> set posts. mentions_pain_points p \<and> painPointWedge now p = Inr w
         \<and> now - or_zero (post_date p) < 14 * day_ms))"
proof -
  from assms obtain p where p: "p \<in> set posts" "mentions_pain_points p" "painPointWedge now p = Inr w"
    unfolding detectPainPointWedges_def Let_def
    using forEach_push_set [of "painPointWedge now" "filter mentions_pain_points posts" ws w]
    by auto
  note s = painPointWedge_spec [OF p(3), THEN conjunct2, THEN conjunct2, THEN conjunct1]
  have "score w \<in> {1.00, 1.05, 1.10}"
    unfolding s by simp
  moreover have "1.0 < score w \<longrightarrow> now - or_zero (post_date p) < 14 * day_ms"
    unfolding s by (simp add: day_ms_def)
  ultimately show ?thesis using p by blast
qed

lemma score_buying:
  "detectBuyingSignalWedges now posts = Inr ws \<Longrightarrow> w \<in> set ws \<Longrightarrow> score w = 0.98"
  unfolding detectBuyingSignalWedges_def Let_def
  using forEach_push_set buyingSignalWedge_spec by fastforce

lemma score_jobChange:
  "w \<in> set (detectJobChangeWedges profile signals) \<Longrightarrow> score w = 0.90 \<or> score w = 0.85"
  by (auto simp: detectJobChangeWedges_def jobChangeRecentWedge_def jobChangeOptimalWedge_def Let_def
      split: option.splits if_splits)

lemma score_thoughtLeadership:
  "detectThoughtLeadershipWedges now posts = Inr ws \<Longrightarrow> w \<in> set ws \<Longrightarrow>
     score w = 0.85 \<or> score w = 0.75"
  using thoughtLeadershipWedge_spec
  by (auto simp: detectThoughtLeadershipWedges_find activePoster_score
      split: option.splits sum.splits if_splits)

lemma score_technical:
  "w \<in> set (detectTechnicalWedges posts githubActivity) \<Longrightarrow> score w = 0.80"
  by (auto simp: detectTechnicalWedges_def technicalWedge_def Let_def split: option.splits if_splits)

lemma score_initiative:
  "w \<in> set (detectInitiativeWedges signals) \<Longrightarrow> score w = 0.70"
  by (auto simp: detectInitiativeWedges_def initiativeWedge_def Let_def split: list.splits)

lemma returned_cases: "w \<in> set (returned r) \<Longrightarrow> \<exists>ws. r = Inr ws \<and> w \<in> set ws"
  by (cases r) simp_all

lemma emitted_wedges_cases:
  assumes "w \<in> set (emitted_wedges now prof posts sigs gh)"
  shows "(\<exists>ws. detectPainPointWedges now posts = Inr ws \<and> w \<in> set ws)
     \<or> score w \<in> {0.70, 0.75, 0.80, 0.85, 0.90, 0.98}"
proof -
  from assms consider
      "w \<in> set (returned (detectPainPointWedges now posts))"
    | "w \<in> set (returned (detectBuyingSignalWedges now posts))"
    | "w \<in> set (detectJobChangeWedges prof sigs)"
    | "w \<in> set (returned (detectThoughtLeadershipWedges now posts))"
    | "w \<in> set (detectTechnicalWedges posts gh)"
    | "w \<in> set (detectInitiativeWedges sigs)"
    by (auto simp: emitted_wedges_def)
  then show ?thesis
  proof cases
    case 1
    then show ?thesis using returned_cases by blast
  next
    case 2
    then have "score w = 0.98" using returned_cases score_buying by blast
    then show ?thesis by simp
  next
    case 3
    then show ?thesis using score_jobChange by fastforce
  next
    case 4
    then have "score w = 0.85 \<or> score w = 0.75"
      using returned_cases score_thoughtLeadership by blast
    then show ?thesis by auto
  next
    case 5
    then show ?thesis using score_technical by fastforce
  next
    case 6
    then show ?thesis using score_initiative by fastforce
  qed
qed

lemma detectWedges_emitted:
  "set (wedges (detectWedges now (Inr prof) (Inr posts) (Inr sigs) (Inr gh)))
     \<subseteq> set (emitted_wedges now prof posts sigs gh)"
proof (cases "collectWedges now prof posts sigs gh")
  case (Inl err)
  then show ?thesis by (simp add: detectWedges_def emptyDetection_def)
next
  case (Inr ws)
  then show ?thesis
    using collectWedges_emitted [OF Inr] by (simp add: detectWedges_Inr [OF Inr])
qed

text \<open>
  \<^bold>\<open>Claim C10.\<close> Every wedge that one of the six rules returns has a score in
  \<open>{0.70, 0.75, 0.80, 0.85, 0.90, 0.98, 1.00, 1.05, 1.10}\<close>, hence between 0.70 and 1.10;
  and a wedge with a score above 1.0 is the pain-point wedge of a flagged post less than
  14 days old. The wedges of a detection are among the wedges that the rules return, the
  whole sequence when no rule throws.
\<close>

theorem wedge_score_range:
  "(\<forall>w \<in> set (emitted_wedges now prof posts sigs gh).
      score w \<in> wedge_scores \<and> 0.70 \<le> score w \<and> score w \<le> 1.10
      \<and> (1.0 < score w \<longrightarrow>
           type w = linkedin_pain_point
           \<and> (\<exists>p \<in> set posts. mentions_pain_points p \<and> painPointWedge now p = Inr w
                 \<and> now - or_zero (post_date p) < 14 * day_ms)))
   \<and> set (wedges (detectWedges now (Inr prof) (Inr posts) (Inr sigs) (Inr gh)))
        \<subseteq> set (emitted_wedges now prof posts sigs gh)
   \<and> (\<forall>ws. collectWedges now prof posts sigs gh = Inr ws \<longrightarrow>
         ws = emitted_wedges now prof posts sigs gh)"
proof -
  have "score w \<in> wedge_scores \<and> 0.70 \<le> score w \<and> score w \<le> 1.10
      \<and> (1.0 < score w \<longrightarrow>
           type w = linkedin_pain_point
           \<and> (\<exists>p \<in> set posts. mentions_pain_points p \<and> painPointWedge now p = Inr w
                 \<and> now - or_zero (post_date p) < 14 * day_ms))"
    if "w \<in> set (emitted_wedges now prof posts sigs gh)" for w
  proof -
    from that consider (pp) ws where "detectPainPointWedges now posts = Inr ws" "w \<in> set ws"
      | (other) "score w \<in> {0.70, 0.75, 0.80, 0.85, 0.90, 0.98}"
      using emitted_wedges_cases by blast
    then show ?thesis
    proof cases
      case pp
      from score_painPoint [OF pp] types_painPoint [OF pp] show ?thesis
        by (auto simp: wedge_scores_def)
    next
      case other
      then show ?thesis by (auto simp: wedge_scores_def)
    qed
  qed
  then show ?thesis
    using detectWedges_emitted collectWedges_emitted by blast
qed

lemma example_emitted_pain_wedge:
  "painPointWedge (10 * day_ms) example_pain_post = Inr w \<Longrightarrow>
     w \<in> set (emitted_wedges (10 * day_ms) (Some example_profile) [example_pain_post] [] None)"
  by (simp add: emitted_wedges_def detectPainPointWedges_def example_pain_post_def)

lemma example_pain_wedge_returned:
  "painPointWedge (10 * day_ms) example_pain_post
     = Inr (projr (painPointWedge (10 * day_ms) example_pain_post))"
proof -
  have "renders example_pain_post"
    by (simp add: renders_def example_pain_post_def)
  then have "\<not> isl (painPointWedge (10 * day_ms) example_pain_post)"
    by (simp add: painPointWedge_renders)
  then show ?thesis by simp
qed

theorem wedge_score_range_witness:
  "projr (painPointWedge (10 * day_ms) example_pain_post)
     \<in> set (emitted_wedges (10 * day_ms) (Some example_profile) [example_pain_post] [] None)
   \<and> score (projr (painPointWedge (10 * day_ms) example_pain_post)) \<in> wedge_scores
   \<and> 1.0 < score (projr (painPointWedge (10 * day_ms) example_pain_post))
   \<and> type (projr (painPointWedge (10 * day_ms) example_pain_post)) = linkedin_pain_point"
proof -
  note r = example_pain_wedge_returned
  have m: "projr (painPointWedge (10 * day_ms) example_pain_post)
     \<in> set (emitted_wedges (10 * day_ms) (Some example_profile) [example_pain_post] [] None)"
    using example_emitted_pain_wedge [OF r] .
  have "score (projr (painPointWedge (10 * day_ms) example_pain_post)) = 1.10"
    using painPointWedge_spec [OF r] by (simp add: example_pain_post_def day_ms_def)
  then have s: "1.0 < score (projr (painPointWedge (10 * day_ms) example_pain_post))"
    by simp
  from wedge_score_range [of "10 * day_ms" "Some example_profile" "[example_pain_post]" "[]" None,
      THEN conjunct1] m
  have "score (projr (painPointWedge (10 * day_ms) example_pain_post)) \<in> wedge_scores
     \<and> (1.0 < score (projr (painPointWedge (10 * day_ms) example_pain_post)) \<longrightarrow>
          type (projr (painPointWedge (10 * day_ms) example_pain_post)) = linkedin_pain_point)"
    by blast
  with m s show ?thesis by blast
qed

subsection \<open>The thought-leadership rule\<close>

text \<open>
  \<^bold>\<open>Claim C3, as amended.\<close> When the rules run to completion on the fetched posts: if some
  fetched post has an engagement count (absent counted as 0) strictly greater than twice
  the average engagement of the fetched posts, the detection holds exactly one
  high-engagement thought-leadership wedge, built from the first such post in fetch order;
  its score is 0.85 and its rationale cites that post's engagement and the rounded average.
  If no post qualifies there is no such wedge.
\<close>

theorem high_engagement_wedge:
  assumes "rules_complete posts"
  shows "(find (qualifies posts) posts = None \<longrightarrow>
            filter (\<lambda>w. type w = linkedin_thought_leadership)
              (wedges (detectWedges now (Inr prof) (Inr posts) (Inr sigs) (Inr gh))) = [])
   \<and> (\<forall>p. find (qualifies posts) posts = Some p \<longrightarrow>
         (\<exists>w. thoughtLeadershipWedge now (spec_average posts) p = Inr w
            \<and> filter (\<lambda>w. type w = linkedin_thought_leadership)
                (wedges (detectWedges now (Inr prof) (Inr posts) (Inr sigs) (Inr gh))) = [w]))
   \<and> (\<forall>avg p w. thoughtLeadershipWedge now avg p = Inr w \<longrightarrow>
          type w = linkedin_thought_leadership
        \<and> score w = 0.85
        \<and> timingRationale w =
            ''High engagement ('' @ show_nullable_int (engagement_count p) @ '' vs ''
            @ show_int (round avg) @ '' average) shows this topic resonates with their audience'')"
proof -
  from assms obtain all where c: "collectWedges now prof posts sigs gh = Inr all"
    using collectWedges_completes by blast
  have f: "filter (\<lambda>w. type w = linkedin_thought_leadership)
       (wedges (detectWedges now (Inr prof) (Inr posts) (Inr sigs) (Inr gh)))
     = sort_key (\<lambda>w. - score w) (case find (qualifies posts) posts of
          None \<Rightarrow> []
        | Some p \<Rightarrow> returned (map_sum id (\<lambda>w. [w])
                       (thoughtLeadershipWedge now (spec_average posts) p)))"
    by (simp add: detectWedges_Inr [OF c] filter_sort filter_thoughtLeadership_collect [OF c])
  have 1: "find (qualifies posts) posts = None \<longrightarrow>
            filter (\<lambda>w. type w = linkedin_thought_leadership)
              (wedges (detectWedges now (Inr prof) (Inr posts) (Inr sigs) (Inr gh))) = []"
    by (simp add: f)
  have 2: "\<exists>w. thoughtLeadershipWedge now (spec_average posts) p = Inr w
            \<and> filter (\<lambda>w. type w = linkedin_thought_leadership)
                (wedges (detectWedges now (Inr prof) (Inr posts) (Inr sigs) (Inr gh))) = [w]"
    if p: "find (qualifies posts) posts = Some p" for p
  proof -
    from assms p have "key_themes p \<noteq> None \<and> topics_detected p \<noteq> None"
      by (simp add: rules_complete_def)
    then have "\<not> isl (thoughtLeadershipWedge now (spec_average posts) p)"
      by (simp add: thoughtLeadershipWedge_renders)
    then obtain w where w: "thoughtLeadershipWedge now (spec_average posts) p = Inr w"
      by (cases "thoughtLeadershipWedge now (spec_average posts) p") auto
    with f p show ?thesis by simp
  qed
  from 1 2 show ?thesis using thoughtLeadershipWedge_spec by blast
qed

lemma example_average: "spec_average example_engaged_posts = 4"
  by (simp add: spec_average_def example_engaged_posts_def engaged_post_def)

lemma show_int_4: "show_int 4 = ''4''"
  by code_simp

lemma show_int_10: "show_int 10 = ''10''"
  by code_simp

lemma example_first_qualifying:
  "find (qualifies example_engaged_posts) example_engaged_posts = Some (engaged_post ''a'' 10)"
proof -
  have q: "qualifies example_engaged_posts (engaged_post ''a'' 10)"
    by (simp add: qualifies_def example_average) (simp add: engaged_post_def)
  show ?thesis
    by (subst (2) example_engaged_posts_def) (simp add: q)
qed

lemma example_engaged_complete: "rules_complete example_engaged_posts"
  unfolding rules_complete_def example_first_qualifying
  by (simp add: engaged_post_def) (simp add: example_engaged_posts_def engaged_post_def)

theorem high_engagement_wedge_witness:
  "rules_complete example_engaged_posts
   \<and> find (qualifies example_engaged_posts) example_engaged_posts = Some (engaged_post ''a'' 10)
   \<and> map score (filter (\<lambda>w. type w = linkedin_thought_leadership)
        (wedges (detectWedges (10 * day_ms) (Inr None) (Inr example_engaged_posts) (Inr [])
                   (Inr None)))) = [0.85]
   \<and> map timingRationale (filter (\<lambda>w. type w = linkedin_thought_leadership)
        (wedges (detectWedges (10 * day_ms) (Inr None) (Inr example_engaged_posts) (Inr [])
                   (Inr None))))
       = [''High engagement (10 vs 4 average) shows this topic resonates with their audience'']"
proof -
  note t = high_engagement_wedge [OF example_engaged_complete, of "10 * day_ms" None "[]" None]
  from t [THEN conjunct2, THEN conjunct1, THEN spec, THEN mp, OF example_first_qualifying]
  obtain w where w: "thoughtLeadershipWedge (10 * day_ms) (spec_average example_engaged_posts)
                       (engaged_post ''a'' 10) = Inr w"
    and 1: "filter (\<lambda>w. type w = linkedin_thought_leadership)
        (wedges (detectWedges (10 * day_ms) (Inr None) (Inr example_engaged_posts) (Inr [])
                   (Inr None))) = [w]"
    by blast
  have r: "round (4::real) = 4"
    by simp
  have e: "engagement_count (engaged_post ''a'' 10) = Some 10"
    by (simp add: engaged_post_def)
  from t [THEN conjunct2, THEN conjunct2, THEN spec, THEN spec, THEN spec, THEN mp, OF w]
  have 2: "score w = 0.85
   \<and> timingRationale w
       = ''High engagement (10 vs 4 average) shows this topic resonates with their audience''"
    by (simp add: example_average r e show_int_4 show_int_10)
  from example_engaged_complete example_first_qualifying 1 2 show ?thesis by simp
qed

text \<open>
  The claim as stated asks for one wedge per qualifying post. Of five posts with engagement
  10, 10, 0, 0, 0 the average is 4, the first two qualify, and the detection holds a single
  thought-leadership wedge.
\<close>

theorem high_engagement_counterexample:
  "qualifies example_engaged_posts (engaged_post ''a'' 10)
   \<and> qualifies example_engaged_posts (engaged_post ''b'' 10)
   \<and> engaged_post ''a'' 10 \<noteq> engaged_post ''b'' 10
   \<and> example_engaged_posts ! 0 = engaged_post ''a'' 10
   \<and> example_engaged_posts ! 1 = engaged_post ''b'' 10
   \<and> map type (wedges (detectWedges (10 * day_ms) (Inr None) (Inr example_engaged_posts)
                         (Inr []) (Inr None)))
       = [linkedin_thought_leadership]"
proof -
  have q: "qualifies example_engaged_posts (engaged_post u 10)" for u
    by (simp add: qualifies_def example_average) (simp add: engaged_post_def)
  have np: "filter mentions_pain_points example_engaged_posts = []"
       "filter mentions_buying_signals example_engaged_posts = []"
    by (simp_all add: example_engaged_posts_def engaged_post_def)
  obtain w where w: "thoughtLeadershipWedge (10 * day_ms) (spec_average example_engaged_posts)
                       (engaged_post ''a'' 10) = Inr w"
    using thoughtLeadershipWedge_renders
      [of "10 * day_ms" "spec_average example_engaged_posts" "engaged_post ''a'' 10"]
    by (cases "thoughtLeadershipWedge (10 * day_ms) (spec_average example_engaged_posts)
                       (engaged_post ''a'' 10)") (auto simp: engaged_post_def)
  have l: "length example_engaged_posts = 5"
    by (simp add: example_engaged_posts_def)
  have tl: "detectThoughtLeadershipWedges (10 * day_ms) example_engaged_posts = Inr [w]"
    by (simp add: detectThoughtLeadershipWedges_find example_first_qualifying w l)
  have c: "collectWedges (10 * day_ms) None example_engaged_posts [] None = Inr [w]"
    by (simp add: collectWedges_Inr tl detectPainPointWedges_def detectBuyingSignalWedges_def np
        detectJobChangeWedges_def detectTechnicalWedges_def detectInitiativeWedges_def)
  have "map type (wedges (detectWedges (10 * day_ms) (Inr None) (Inr example_engaged_posts)
                         (Inr []) (Inr None))) = [linkedin_thought_leadership]"
    using thoughtLeadershipWedge_spec [OF w] by (simp add: detectWedges_Inr [OF c])
  moreover have "engaged_post ''a'' 10 \<noteq> engaged_post ''b'' 10"
    by (simp add: engaged_post_def)
  ultimately show ?thesis
    using q by (simp add: example_engaged_posts_def)
qed

section \<open>Job-change rule\<close>

text \<open>
  \<^bold>\<open>Claim C4\<close> asks for a \<open>recent\<close> wedge whenever the tenure is below 6 months. The guard
  \<^verbatim>\<open>!profile.current_position_tenure_months\<close> is also true of the number 0, so a profile in
  its first month of tenure yields no wedge.
\<close>

theorem job_change_zero_tenure:
  "detectJobChangeWedges (Some (p\<lparr>current_position_tenure_months := Some 0\<rparr>)) signals = []"
  by (simp add: detectJobChangeWedges_def)

text \<open>For every other profile the rule does what the claim says.\<close>

lemma job_change_nonzero_tenure:
  "detectJobChangeWedges None signals = []
   \<and> (current_position_tenure_months p = None \<longrightarrow> detectJobChangeWedges (Some p) signals = [])
   \<and> (current_position_tenure_months p = Some t \<and> t \<noteq> 0 \<longrightarrow>
        detectJobChangeWedges (Some p) signals =
          (if t < 6 then [jobChangeRecentWedge p t]
           else if t \<le> 12 then [jobChangeOptimalWedge t] else []))
   \<and> type (jobChangeRecentWedge p t) = linkedin_job_change_recent
   \<and> score (jobChangeRecentWedge p t) = 0.90
   \<and> type (jobChangeOptimalWedge t) = linkedin_job_change_optimal
   \<and> score (jobChangeOptimalWedge t) = 0.85
   \<and> length (detectJobChangeWedges profile signals) \<le> 1"
  by (auto simp: detectJobChangeWedges_def jobChangeRecentWedge_def jobChangeOptimalWedge_def
      Let_def split: option.splits)

section \<open>Properties of the playbook generator\<close>

lemma recommendChannels_closed_form:
  "recommendChannels linkedinProfile linkedinPosts githubActivity =
     \<lparr>linkedin_dm = (if post_count linkedinPosts \<ge> 5 then 0.95 else 0.5),
      email = (if score_above (github_score githubActivity) 0.6 then 0.9 else 0.8),
      phone = (if score_above (github_score githubActivity) 0.6 then 0.2 else 0.3)\<rparr>"
  by (simp add: recommendChannels_def post_count_def github_score_def Let_def
      split: option.splits)

lemma score_above_0_6: "score_above x 0.6 = (case x of None \<Rightarrow> False | Some y \<Rightarrow> y > 0.6)"
  by (cases x) simp_all

text \<open>
  \<^bold>\<open>Claim C5.\<close> The channel recommendation is the mapping over \<open>linkedin_dm\<close>, \<open>email\<close> and
  \<open>phone\<close> that the specification's sequence of assignments computes; its \<open>email\<close> value is
  0.9 when the GitHub activity score is above 0.6 and 0.8 otherwise, whatever the post count.
\<close>

theorem recommended_channels:
  "channels_mapping (recommendChannels linkedinProfile linkedinPosts githubActivity)
     = spec_channels (post_count linkedinPosts) (github_score githubActivity)
   \<and> dom (channels_mapping (recommendChannels linkedinProfile linkedinPosts githubActivity))
       = {''linkedin_dm'', ''email'', ''phone''}
   \<and> email (recommendChannels linkedinProfile linkedinPosts githubActivity)
       = (if (case github_score githubActivity of None \<Rightarrow> False | Some x \<Rightarrow> x > 0.6)
          then 0.9 else 0.8)"
proof -
  have "channels_mapping (recommendChannels linkedinProfile linkedinPosts githubActivity)
     = spec_channels (post_count linkedinPosts) (github_score githubActivity)"
    unfolding recommendChannels_closed_form score_above_0_6
    by (auto simp: channels_mapping_def spec_channels_def Let_def fun_eq_iff)
  moreover have
    "dom (channels_mapping (recommendChannels linkedinProfile linkedinPosts githubActivity))
       = {''linkedin_dm'', ''email'', ''phone''}"
    by (auto simp: channels_mapping_def split: if_splits)
  moreover have "email (recommendChannels linkedinProfile linkedinPosts githubActivity)
       = (if (case github_score githubActivity of None \<Rightarrow> False | Some x \<Rightarrow> x > 0.6)
          then 0.9 else 0.8)"
    unfolding recommendChannels_closed_form score_above_0_6 by simp
  ultimately show ?thesis by blast
qed

subsection \<open>The outcomes of a run\<close>

lemma failure_Nil: "failure f = [] \<longleftrightarrow> \<not> isl f"
  by (cases f) simp_all

lemma own_read_failure:
  "own_failures env = err # others \<Longrightarrow>
     generatePlaybook now env saved = (Failure (message err), saved)"
  by (auto simp: generatePlaybook_def generatePlaybookBody_def own_failures_def Let_def
      append_eq_Cons_conv split: sum.splits)

lemma contact_missing:
  "own_failures env = [] \<Longrightarrow> \<not> contact_found env \<Longrightarrow>
     generatePlaybook now env saved = (Failure ''Contact not found'', saved)"
  by (auto simp: generatePlaybook_def generatePlaybookBody_def own_failures_def contact_found_def
      Let_def split: sum.splits option.splits)

lemma no_primary_wedge:
  "own_failures env = [] \<Longrightarrow> contact_found env \<Longrightarrow>
   primaryWedge (run_detection now env) = None \<Longrightarrow>
     generatePlaybook now env saved = (Failure insufficient, saved)"
  by (auto simp: generatePlaybook_def generatePlaybookBody_def own_failures_def contact_found_def
      run_detection_def insufficient_def Let_def split: sum.splits option.splits)

text \<open>Once the reads have succeeded, the contact exists and there is a primary wedge, the
  run assembles the playbook and inserts it.\<close>

lemma generatePlaybook_assembles:
  assumes "getContactById env = Inr (Some c)" and "getProfile env = Inr prof"
    and "getRecentPosts env = Inr posts" and "getActivity env = Inr gh"
    and "getEngagements env = Inr sp" and "primaryWedge (run_detection now env) = Some w"
  shows "generatePlaybook now env saved =
     (case buildPlaybook c prof posts gh sp
             (getTopSignals signalScorer (scorer_getSignalsByContact env) 5)
             (run_detection now env) w of
        Inl err \<Rightarrow> (Failure (message err), saved)
      | Inr p \<Rightarrow>
          (case savePlaybook env of
             Inl err \<Rightarrow> (Failure (message err), saved)
           | Inr u \<Rightarrow> (Success p, saved @ [p])))"
  using assms
  by (simp add: generatePlaybook_def generatePlaybookBody_def run_detection_def Let_def
      split: sum.splits)

lemma reads_succeed:
  assumes "own_failures env = []" and "contact_found env"
  obtains c prof posts gh sp where "getContactById env = Inr (Some c)"
    and "getProfile env = Inr prof" and "getRecentPosts env = Inr posts"
    and "getActivity env = Inr gh" and "getEngagements env = Inr sp"
proof -
  from assms(1) have "\<not> isl (getContactById env)" "\<not> isl (getProfile env)"
    "\<not> isl (getRecentPosts env)" "\<not> isl (getActivity env)" "\<not> isl (getEngagements env)"
    by (simp_all add: own_failures_def failure_Nil)
  moreover from assms(2) obtain c where "getContactById env = Inr (Some c)"
    by (auto simp: contact_found_def split: sum.splits option.splits)
  ultimately show ?thesis
    using that by (metis sum.collapse(2))
qed

lemma primary_Some_outcome:
  assumes "own_failures env = []" and "contact_found env"
    and "primaryWedge (run_detection now env) = Some w"
  shows "(\<exists>msg. generatePlaybook now env saved = (Failure msg, saved))
   \<or> (\<exists>p u. savePlaybook env = Inr u \<and> generatePlaybook now env saved = (Success p, saved @ [p])
         \<and> topSignals (full_strategy_json p)
             = getTopSignals signalScorer (scorer_getSignalsByContact env) 5)"
proof -
  from assms(1,2) obtain c prof posts gh sp where r: "getContactById env = Inr (Some c)"
    "getProfile env = Inr prof" "getRecentPosts env = Inr posts"
    "getActivity env = Inr gh" "getEngagements env = Inr sp"
    by (rule reads_succeed)
  note g = generatePlaybook_assembles [OF r assms(3), of saved]
  show ?thesis
  proof (cases "buildPlaybook c prof posts gh sp
             (getTopSignals signalScorer (scorer_getSignalsByContact env) 5)
             (run_detection now env) w")
    case (Inl err)
    with g show ?thesis by simp
  next
    case (Inr p)
    then have t: "topSignals (full_strategy_json p)
             = getTopSignals signalScorer (scorer_getSignalsByContact env) 5"
      by (auto simp: buildPlaybook_def split: sum.splits)
    show ?thesis
    proof (cases "savePlaybook env")
      case (Inl err)
      with g Inr show ?thesis by simp
    next
      case u: (Inr u)
      with g Inr t show ?thesis by simp
    qed
  qed
qed

lemma generatePlaybook_outcome:
  "(\<exists>msg. generatePlaybook now env saved = (Failure msg, saved))
   \<or> (\<exists>p u. savePlaybook env = Inr u \<and> generatePlaybook now env saved = (Success p, saved @ [p]))"
proof (cases "own_failures env")
  case (Cons err others)
  then show ?thesis using own_read_failure by blast
next
  case Nil
  show ?thesis
  proof (cases "contact_found env")
    case False
    with Nil show ?thesis using contact_missing by blast
  next
    case True
    show ?thesis
    proof (cases "primaryWedge (run_detection now env)")
      case None
      with Nil True show ?thesis using no_primary_wedge by blast
    next
      case (Some w)
      with Nil True show ?thesis using primary_Some_outcome by blast
    qed
  qed
qed

lemma primary_None_failure:
  assumes "primaryWedge (run_detection now env) = None"
  shows "\<exists>msg. generatePlaybook now env saved = (Failure msg, saved)"
proof (cases "own_failures env")
  case (Cons err others)
  then show ?thesis using own_read_failure by blast
next
  case Nil
  show ?thesis
  proof (cases "contact_found env")
    case False
    with Nil show ?thesis using contact_missing by blast
  next
    case True
    with Nil assms show ?thesis using no_primary_wedge by blast
  qed
qed

text \<open>A run that succeeds with a working insert reports, with the insert failing, the error
  of the insert.\<close>

lemma save_failure:
  assumes "savePlaybook env = Inl err"
    and "is_success (fst (generatePlaybook now (env\<lparr>savePlaybook := Inr ()\<rparr>) saved))"
  shows "generatePlaybook now env saved = (Failure (message err), saved)"
  using assms
  by (auto simp: generatePlaybook_def generatePlaybookBody_def Let_def
      split: sum.splits option.splits)

text \<open>
  \<^bold>\<open>Claim C6.\<close> When the detection of a run has no primary wedge, \<open>generatePlaybook\<close>
  returns a failure result (no exception leaves it) and the table of playbooks is unchanged;
  when the contact exists and the generator's own reads succeed, the error is the
  insufficient-intelligence message.
\<close>

theorem no_wedge_insufficient_intelligence:
  assumes "primaryWedge (run_detection now env) = None"
  shows "(\<exists>msg. generatePlaybook now env saved = (Failure msg, saved))
         \<and> (contact_found env \<and> own_failures env = [] \<longrightarrow>
              generatePlaybook now env saved = (Failure insufficient, saved))"
  using assms primary_None_failure no_primary_wedge by blast

lemma detector_failure_empty:
  "detector_failures env \<noteq> [] \<Longrightarrow> run_detection now env = emptyDetection"
  unfolding run_detection_def detector_failures_def
  by (rule detectWedges_failure) (auto simp: failure_Nil)

lemma scorer_failure_empty:
  "scoreAndPrioritizeSignals this (Inl err) = [] \<and> getTopSignals this (Inl err) n = []"
  by (simp add: scoreAndPrioritizeSignals_def getTopSignals_def slice_def)

text \<open>
  \<^bold>\<open>Claim C7, as amended.\<close> A failure of one of the five reads that \<open>generatePlaybook\<close>
  issues itself is reported as a failure result with the message of a failed read. A failure
  of the final insert gives a failure result, and in a run that succeeds with a working
  insert it is the failure result with the message of the insert's error. With a failure
  result nothing is persisted. A failure of the signal read inside the scorer gives the
  empty signal list, and a failure of a read inside the wedge detector gives the empty
  detection, after which \<open>generatePlaybook\<close> (contact found, own reads succeeding) returns
  the insufficient-intelligence failure.
\<close>

theorem fetch_failures:
  "(\<forall>err others. own_failures env = err # others \<longrightarrow>
       (\<exists>e \<in> set (own_failures env). generatePlaybook now env saved = (Failure (message e), saved)))
   \<and> (\<forall>err. savePlaybook env = Inl err \<longrightarrow>
         (\<exists>msg. generatePlaybook now env saved = (Failure msg, saved))
         \<and> (is_success (fst (generatePlaybook now (env\<lparr>savePlaybook := Inr ()\<rparr>) saved)) \<longrightarrow>
              generatePlaybook now env saved = (Failure (message err), saved)))
   \<and> (\<forall>msg. fst (generatePlaybook now env saved) = Failure msg \<longrightarrow>
         snd (generatePlaybook now env saved) = saved)
   \<and> (\<forall>err. scorer_getSignalsByContact env = Inl err \<longrightarrow>
         getTopSignals signalScorer (scorer_getSignalsByContact env) 5 = [])
   \<and> (detector_failures env \<noteq> [] \<longrightarrow> run_detection now env = emptyDetection)
   \<and> (detector_failures env \<noteq> [] \<and> contact_found env \<and> own_failures env = [] \<longrightarrow>
         generatePlaybook now env saved = (Failure insufficient, saved))"
proof (intro conjI allI impI)
  fix err others assume "own_failures env = err # others"
  then show "\<exists>e \<in> set (own_failures env). generatePlaybook now env saved = (Failure (message e), saved)"
    using own_read_failure by fastforce
next
  fix err assume s: "savePlaybook env = Inl err"
  from generatePlaybook_outcome [of now env saved] s
  show "\<exists>msg. generatePlaybook now env saved = (Failure msg, saved)"
    by auto
next
  fix err
  assume "savePlaybook env = Inl err"
    and "is_success (fst (generatePlaybook now (env\<lparr>savePlaybook := Inr ()\<rparr>) saved))"
  then show "generatePlaybook now env saved = (Failure (message err), saved)"
    by (rule save_failure)
next
  fix msg assume "fst (generatePlaybook now env saved) = Failure msg"
  with generatePlaybook_outcome [of now env saved]
  show "snd (generatePlaybook now env saved) = saved" by auto
next
  fix err assume "scorer_getSignalsByContact env = Inl err"
  then show "getTopSignals signalScorer (scorer_getSignalsByContact env) 5 = []"
    using scorer_failure_empty by simp
next
  assume "detector_failures env \<noteq> []"
  then show "run_detection now env = emptyDetection" by (rule detector_failure_empty)
next
  assume a: "detector_failures env \<noteq> [] \<and> contact_found env \<and> own_failures env = []"
  then have "primaryWedge (run_detection now env) = None"
    by (simp add: detector_failure_empty emptyDetection_def)
  with a show "generatePlaybook now env saved = (Failure insufficient, saved)"
    using no_primary_wedge by blast
qed

subsection \<open>The example runs\<close>

lemma primaryWedge_None_iff:
  assumes "collectWedges now prof posts sigs gh = Inr ws"
  shows "primaryWedge (detectWedges now (Inr prof) (Inr posts) (Inr sigs) (Inr gh)) = None
     \<longleftrightarrow> ws = []"
proof -
  have e: "sort_key f xs = [] \<longleftrightarrow> xs = []" for f :: "wedge \<Rightarrow> real" and xs
    by (metis length_sort length_0_conv)
  have "primaryWedge (detectWedges now (Inr prof) (Inr posts) (Inr sigs) (Inr gh)) = None
     \<longleftrightarrow> sort_key (\<lambda>w. - score w) ws = []"
    using assms by (simp add: detectWedges_def Let_def split: list.splits)
  then show ?thesis
    by (simp only: e)
qed

lemma example_primary:
  "primaryWedge (detectWedges (10 * day_ms) (Inr (Some example_profile)) (Inr [example_pain_post])
     (Inr [example_signal]) (Inr None)) \<noteq> None"
proof -
  from example_rules_complete obtain ws where
    c: "collectWedges (10 * day_ms) (Some example_profile) [example_pain_post] [example_signal] None
          = Inr ws"
    using collectWedges_completes by blast
  then obtain pp rest where "detectPainPointWedges (10 * day_ms) [example_pain_post] = Inr pp"
    and ws: "ws = pp @ rest"
    by (auto simp: collectWedges_Inr)
  then have "map Inr pp = map (painPointWedge (10 * day_ms)) (filter mentions_pain_points [example_pain_post])"
    by (simp add: detectPainPointWedges_def forEach_push_Inr_iff)
  then have "pp \<noteq> []"
    by (auto simp: example_pain_post_def)
  with ws show ?thesis
    by (simp add: primaryWedge_None_iff [OF c])
qed

lemma no_intelligence_collect:
  "collectWedges now None [] [example_signal] None = Inr []"
  by (simp add: collectWedges_def detectPainPointWedges_def detectBuyingSignalWedges_def
      detectJobChangeWedges_def detectThoughtLeadershipWedges_def detectTechnicalWedges_def
      detectInitiativeWedges_def example_signal_def)

lemma find_Some_set: "find P xs = Some x \<Longrightarrow> x \<in> set xs"
  by (induction xs) (auto split: if_splits)

lemma buildLinkedInContext_completes:
  assumes "\<And>p. p \<in> set posts \<Longrightarrow> post_content p \<noteq> None"
  shows "\<exists>ctx. buildLinkedInContext prof posts w = Inr ctx"
proof (cases "find (\<lambda>q. post_url q = postUrl (details w)) posts")
  case None
  then show ?thesis
    by (simp add: buildLinkedInContext_def split: option.splits)
next
  case (Some q)
  then have "q \<in> set posts" by (rule find_Some_set)
  then obtain content where "post_content q = Some content"
    using assms by blast
  then have "\<exists>t. buildTriggerPost posts q = Inr t"
    by (simp add: buildTriggerPost_def)
  with Some show ?thesis
    by (auto simp: buildLinkedInContext_def split: option.splits)
qed

lemma run_succeeds:
  assumes "own_failures env = []" and "contact_found env"
    and "primaryWedge (run_detection now env) = Some w"
    and "getRecentPosts env = Inr posts"
    and "\<And>p. p \<in> set posts \<Longrightarrow> post_content p \<noteq> None"
    and "savePlaybook env = Inr u"
  shows "\<exists>p. generatePlaybook now env saved = (Success p, saved @ [p])
         \<and> topSignals (full_strategy_json p)
             = getTopSignals signalScorer (scorer_getSignalsByContact env) 5"
proof -
  from assms(1,2) obtain c prof posts' gh sp where r: "getContactById env = Inr (Some c)"
    "getProfile env = Inr prof" "getRecentPosts env = Inr posts'"
    "getActivity env = Inr gh" "getEngagements env = Inr sp"
    by (rule reads_succeed)
  from r(3) assms(4) have p: "posts' = posts" by simp
  from buildLinkedInContext_completes [of posts prof w] assms(5)
  obtain ctx where "buildLinkedInContext prof posts w = Inr ctx"
    by blast
  then obtain pb where b: "buildPlaybook c prof posts gh sp
             (getTopSignals signalScorer (scorer_getSignalsByContact env) 5)
             (run_detection now env) w = Inr pb"
    and t: "topSignals (full_strategy_json pb)
             = getTopSignals signalScorer (scorer_getSignalsByContact env) 5"
    by (simp add: buildPlaybook_def)
  from generatePlaybook_assembles [OF r assms(3), of saved] b assms(6) t show ?thesis
    by (simp add: p)
qed

theorem no_wedge_insufficient_intelligence_witness:
  "primaryWedge (run_detection (10 * day_ms) no_intelligence_environment) = None
   \<and> contact_found no_intelligence_environment
   \<and> own_failures no_intelligence_environment = []
   \<and> generatePlaybook (10 * day_ms) no_intelligence_environment []
       = (Failure ''Insufficient intelligence to generate playbook'', [])"
proof -
  have d: "primaryWedge (run_detection (10 * day_ms) no_intelligence_environment) = None"
    by (simp add: run_detection_def no_intelligence_environment_def example_environment_def
        primaryWedge_None_iff [OF no_intelligence_collect])
  have c: "contact_found no_intelligence_environment"
    by (simp add: contact_found_def no_intelligence_environment_def example_environment_def)
  have f: "own_failures no_intelligence_environment = []"
    by (simp add: own_failures_def no_intelligence_environment_def example_environment_def)
  from no_wedge_insufficient_intelligence [OF d, of "[]"] c f
  have "generatePlaybook (10 * day_ms) no_intelligence_environment [] = (Failure insufficient, [])"
    by blast
  with d c f show ?thesis by (simp add: insufficient_def)
qed

lemma example_posts_content: "p \<in> set [example_pain_post] \<Longrightarrow> post_content p \<noteq> None"
  by (simp add: example_pain_post_def)

text \<open>
  The claim as stated has every read failure reported as a failure and no partial playbook.
  With the scorer's signal read failing and every other read succeeding, a playbook with an
  empty signal list is built and persisted; with a read of the detector failing, the result
  is the insufficient-intelligence failure of a contact without data.
\<close>

theorem fetch_failures_counterexample:
  "scorer_getSignalsByContact scorer_down_environment = Inl (Error ''connection refused'')
   \<and> is_success (fst (generatePlaybook (10 * day_ms) scorer_down_environment []))
   \<and> map (topSignals \<circ> full_strategy_json)
        (snd (generatePlaybook (10 * day_ms) scorer_down_environment [])) = [[]]
   \<and> detector_getRecentPosts detector_down_environment = Inl (Error ''connection refused'')
   \<and> generatePlaybook (10 * day_ms) detector_down_environment []
       = (Failure ''Insufficient intelligence to generate playbook'', [])"
proof -
  have f: "own_failures scorer_down_environment = []"
    by (simp add: own_failures_def scorer_down_environment_def example_environment_def)
  have c: "contact_found scorer_down_environment"
    by (simp add: contact_found_def scorer_down_environment_def example_environment_def)
  have "primaryWedge (run_detection (10 * day_ms) scorer_down_environment) \<noteq> None"
    by (simp add: run_detection_def scorer_down_environment_def example_environment_def
        example_primary)
  then obtain w where w: "primaryWedge (run_detection (10 * day_ms) scorer_down_environment) = Some w"
    by blast
  have s: "savePlaybook scorer_down_environment = Inr ()"
    by (simp add: scorer_down_environment_def example_environment_def)
  have g: "getRecentPosts scorer_down_environment = Inr [example_pain_post]"
    by (simp add: scorer_down_environment_def example_environment_def)
  have r: "scorer_getSignalsByContact scorer_down_environment = Inl (Error ''connection refused'')"
    by (simp add: scorer_down_environment_def example_environment_def)
  from run_succeeds [OF f c w g example_posts_content s, of "[]"] obtain p where
    p: "generatePlaybook (10 * day_ms) scorer_down_environment [] = (Success p, [] @ [p])"
       "topSignals (full_strategy_json p)
          = getTopSignals signalScorer (scorer_getSignalsByContact scorer_down_environment) 5"
    by blast
  have t: "topSignals (full_strategy_json p) = []"
    unfolding p(2) r by (simp add: scorer_failure_empty)
  have f': "own_failures detector_down_environment = []"
    by (simp add: own_failures_def detector_down_environment_def example_environment_def)
  have c': "contact_found detector_down_environment"
    by (simp add: contact_found_def detector_down_environment_def example_environment_def)
  have "run_detection (10 * day_ms) detector_down_environment = emptyDetection"
    by (simp add: run_detection_def detector_down_environment_def example_environment_def
        detectWedges_def)
  then have "primaryWedge (run_detection (10 * day_ms) detector_down_environment) = None"
    by (simp add: emptyDetection_def)
  from no_primary_wedge [OF f' c' this, of "[]"]
  have g: "generatePlaybook (10 * day_ms) detector_down_environment []
       = (Failure ''Insufficient intelligence to generate playbook'', [])"
    by (simp add: insufficient_def)
  have r': "detector_getRecentPosts detector_down_environment = Inl (Error ''connection refused'')"
    by (simp add: detector_down_environment_def example_environment_def)
  show ?thesis
    using r r' g by (simp add: p(1) t)
qed

lemma example_run_succeeds:
  "is_success (fst (generatePlaybook (10 * day_ms)
     (save_down_environment\<lparr>savePlaybook := Inr ()\<rparr>) []))"
proof -
  have e: "save_down_environment\<lparr>savePlaybook := Inr ()\<rparr> = example_environment"
    by (simp add: save_down_environment_def example_environment_def)
  have f: "own_failures example_environment = []"
    by (simp add: own_failures_def example_environment_def)
  have c: "contact_found example_environment"
    by (simp add: contact_found_def example_environment_def)
  have "primaryWedge (run_detection (10 * day_ms) example_environment) \<noteq> None"
    by (simp add: run_detection_def example_environment_def example_primary)
  then obtain w where w: "primaryWedge (run_detection (10 * day_ms) example_environment) = Some w"
    by blast
  have s: "savePlaybook example_environment = Inr ()"
    by (simp add: example_environment_def)
  have g: "getRecentPosts example_environment = Inr [example_pain_post]"
    by (simp add: example_environment_def)
  from run_succeeds [OF f c w g example_posts_content s, of "[]"] show ?thesis
    unfolding e by auto
qed

theorem fetch_failures_witness:
  "own_failures profile_down_environment = [Error ''connection refused'']
   \<and> generatePlaybook (10 * day_ms) profile_down_environment []
       = (Failure ''connection refused'', [])
   \<and> savePlaybook save_down_environment = Inl (Error ''connection refused'')
   \<and> is_success (fst (generatePlaybook (10 * day_ms)
        (save_down_environment\<lparr>savePlaybook := Inr ()\<rparr>) []))
   \<and> generatePlaybook (10 * day_ms) save_down_environment []
       = (Failure ''connection refused'', [])
   \<and> detector_failures detector_down_environment \<noteq> []
   \<and> contact_found detector_down_environment
   \<and> own_failures detector_down_environment = []
   \<and> generatePlaybook (10 * day_ms) detector_down_environment []
       = (Failure ''Insufficient intelligence to generate playbook'', [])"
proof -
  note t1 = fetch_failures [of profile_down_environment "10 * day_ms" "[]"]
  note t2 = fetch_failures [of save_down_environment "10 * day_ms" "[]"]
  note t3 = fetch_failures [of detector_down_environment "10 * day_ms" "[]"]
  have o: "own_failures profile_down_environment = [Error ''connection refused'']"
    by (simp add: own_failures_def profile_down_environment_def example_environment_def)
  with t1 have 1: "generatePlaybook (10 * day_ms) profile_down_environment []
       = (Failure ''connection refused'', [])"
    by simp
  have s: "savePlaybook save_down_environment = Inl (Error ''connection refused'')"
    by (simp add: save_down_environment_def example_environment_def)
  from t2 [THEN conjunct2, THEN conjunct1, THEN spec, THEN mp, OF s, THEN conjunct2, THEN mp,
      OF example_run_succeeds]
  have 2: "generatePlaybook (10 * day_ms) save_down_environment []
       = (Failure ''connection refused'', [])"
    by simp
  have d: "detector_failures detector_down_environment \<noteq> []"
    by (simp add: detector_failures_def detector_down_environment_def example_environment_def)
  have c: "contact_found detector_down_environment"
    by (simp add: contact_found_def detector_down_environment_def example_environment_def)
  have f: "own_failures detector_down_environment = []"
    by (simp add: own_failures_def detector_down_environment_def example_environment_def)
  from t3 d c f have 3: "generatePlaybook (10 * day_ms) detector_down_environment []
       = (Failure insufficient, [])"
    by blast
  show ?thesis
    using o 1 s 2 d c f 3 example_run_succeeds by (simp add: insufficient_def)
qed

end
